theory Spec2Isabelle
  imports Complex_Main
begin

section \<open>Common values\<close>

text \<open>
  A \<open>PublicKey\<close> of the ledger is identified by its base-58 text; \<open>toBase58\<close> reads it.
  A JavaScript exception is a value of type \<open>error\<close> carrying its message; a call that may
  throw returns \<open>error + 'a\<close>, with \<open>Inl\<close> for the exception.
\<close>

datatype pubkey = PublicKey (toBase58: string)

datatype error = Error string

subsection \<open>JavaScript numbers\<close>

text \<open>
  A Number is \<open>NaN\<close>, one of the two infinities, or a finite value. A finite value is
  represented by the rational it denotes: every double is a rational, so a statement
  about all \<open>Finite q\<close> covers every finite double. The two zeros \<open>+0\<close> and \<open>-0\<close> are
  both \<open>Finite 0\<close>; the source only compares with \<open>=== 0\<close>, which holds for both.
\<close>

datatype js_number = NaN | PosInfinity | NegInfinity | Finite rat

fun positive :: "js_number \<Rightarrow> bool" where
  "positive (Finite q) = (0 < q)"
| "positive PosInfinity = True"
| "positive NegInfinity = False"
| "positive NaN = False"

subsection \<open>Events\<close>

text \<open>
  Everything the program does to the outside is an \<open>event\<close>: the lines written to the
  console and to the logger, the request to the ledger, and the two requests to the
  price oracle.
\<close>

datatype event =
    ConsoleLog "string list"
  | ConsoleError string error
  | LoggerError "(string \<times> string) list" string
  | LoggerMissing string
  | LedgerGetTokenAccountsByOwner pubkey pubkey "string option"
  | MoralisStart string
  | MoralisGetTokenPrice string string

fun is_network_call :: "event \<Rightarrow> bool" where
  "is_network_call (LedgerGetTokenAccountsByOwner _ _ _) = True"
| "is_network_call (MoralisStart _) = True"
| "is_network_call (MoralisGetTokenPrice _ _) = True"
| "is_network_call _ = False"

fun is_oracle_call :: "event \<Rightarrow> bool" where
  "is_oracle_call (MoralisStart _) = True"
| "is_oracle_call (MoralisGetTokenPrice _ _) = True"
| "is_oracle_call _ = False"

section \<open>constants.ts\<close>

subsection \<open>Number and parseFloat\<close>

text \<open>
  \<open>Number(s)\<close> and \<open>parseFloat(s)\<close> on a string, after the grammar of ECMAScript
  (\<open>StringNumericLiteral\<close>, \<open>StrDecimalLiteral\<close>). A string is a list of code units below
  256. The result is the mathematical value of the literal; JavaScript then rounds it to
  the nearest double, which the model leaves out: the rounding never turns a value into
  \<open>NaN\<close> nor \<open>NaN\<close> into a value.
\<close>

definition isStrWhiteSpaceChar :: "char \<Rightarrow> bool" where
  "isStrWhiteSpaceChar c = (of_char c \<in> set [9, 10, 11, 12, 13, 32, 160 :: nat])"

definition isDecimalDigit :: "char \<Rightarrow> bool" where
  "isDecimalDigit c = (c \<in> set ''0123456789'')"

definition digitValue :: "char \<Rightarrow> nat" where
  "digitValue c =
     (if c \<in> set ''0123456789'' then of_char c - 48
      else if c \<in> set ''abcdef'' then of_char c - 87
      else of_char c - 55)"

definition radixValue :: "nat \<Rightarrow> string \<Rightarrow> nat" where
  "radixValue b ds = foldl (\<lambda>a c. b * a + digitValue c) 0 ds"

definition scale10 :: "rat \<Rightarrow> int \<Rightarrow> rat" where
  "scale10 q e = (if 0 \<le> e then q * 10 ^ nat e else q / 10 ^ nat (- e))"

text \<open>
  \<open>ExponentPart\<close>, when the text starts with one: \<open>e\<close> or \<open>E\<close>, an optional sign, and at
  least one digit. Otherwise the exponent is 0 and nothing is consumed.
\<close>

definition scanExponent :: "string \<Rightarrow> int \<times> string" where
  "scanExponent s =
     (case s of
        [] \<Rightarrow> (0, s)
      | c # t \<Rightarrow>
          if c = CHR ''e'' \<or> c = CHR ''E'' then
            (let neg = (t \<noteq> [] \<and> hd t = CHR ''-'');
                 u = (if t \<noteq> [] \<and> (hd t = CHR ''+'' \<or> hd t = CHR ''-'') then tl t else t);
                 ds = takeWhile isDecimalDigit u
             in if ds = [] then (0, s)
                else ((if neg then - int (radixValue 10 ds) else int (radixValue 10 ds)),
                      dropWhile isDecimalDigit u))
          else (0, s))"

text \<open>
  The longest prefix that is a \<open>StrUnsignedDecimalLiteral\<close>, with its value and the rest
  of the text: \<open>Infinity\<close>, digits with an optional fraction, or a fraction that starts
  with the point, each of the last two with an optional exponent.
\<close>

definition scanUnsignedDecimal :: "string \<Rightarrow> (js_number \<times> string) option" where
  "scanUnsignedDecimal s =
     (if take 8 s = ''Infinity'' then Some (PosInfinity, drop 8 s)
      else
        let ip = takeWhile isDecimalDigit s;
            r1 = dropWhile isDecimalDigit s;
            point = (r1 \<noteq> [] \<and> hd r1 = CHR ''.'');
            fp = (if point then takeWhile isDecimalDigit (tl r1) else []);
            r2 = (if point then dropWhile isDecimalDigit (tl r1) else r1)
        in if ip = [] \<and> fp = [] then None
           else
             (case scanExponent r2 of
                (e, r3) \<Rightarrow>
                  Some (Finite (scale10 (of_nat (radixValue 10 ip)
                                          + of_nat (radixValue 10 fp) / 10 ^ length fp) e),
                        r3)))"

fun negate :: "js_number \<Rightarrow> js_number" where
  "negate (Finite q) = Finite (- q)"
| "negate PosInfinity = NegInfinity"
| "negate NegInfinity = PosInfinity"
| "negate NaN = NaN"

definition scanDecimal :: "string \<Rightarrow> (js_number \<times> string) option" where
  "scanDecimal s =
     (if s \<noteq> [] \<and> hd s = CHR ''+'' then scanUnsignedDecimal (tl s)
      else if s \<noteq> [] \<and> hd s = CHR ''-'' then
        map_option (\<lambda>(v, r). (negate v, r)) (scanUnsignedDecimal (tl s))
      else scanUnsignedDecimal s)"

text \<open>\<open>NonDecimalIntegerLiteral\<close>: the whole text is \<open>0x\<close>, \<open>0o\<close> or \<open>0b\<close> and digits of that base.\<close>

definition scanNonDecimal :: "string \<Rightarrow> js_number option" where
  "scanNonDecimal s =
     (case s of
        z # c # ds \<Rightarrow>
          if z \<noteq> CHR ''0'' \<or> ds = [] then None
          else if (c = CHR ''x'' \<or> c = CHR ''X'') \<and> list_all (\<lambda>d. d \<in> set ''0123456789abcdefABCDEF'') ds
            then Some (Finite (of_nat (radixValue 16 ds)))
          else if (c = CHR ''o'' \<or> c = CHR ''O'') \<and> list_all (\<lambda>d. d \<in> set ''01234567'') ds
            then Some (Finite (of_nat (radixValue 8 ds)))
          else if (c = CHR ''b'' \<or> c = CHR ''B'') \<and> list_all (\<lambda>d. d \<in> set ''01'') ds
            then Some (Finite (of_nat (radixValue 2 ds)))
          else None
      | _ \<Rightarrow> None)"

definition trimStart :: "string \<Rightarrow> string" where
  "trimStart s = dropWhile isStrWhiteSpaceChar s"

definition trim :: "string \<Rightarrow> string" where
  "trim s = rev (dropWhile isStrWhiteSpaceChar (rev (trimStart s)))"

text \<open>
  \<open>parseFloat\<close> skips leading white space and reads the longest prefix that is a decimal
  literal; \<open>Number\<close> wants the whole text, white space at both ends apart, to be a numeric
  literal, and reads the empty text as 0.
\<close>

definition parseFloat :: "string \<Rightarrow> js_number" where
  "parseFloat s = (case scanDecimal (trimStart s) of None \<Rightarrow> NaN | Some (v, _) \<Rightarrow> v)"

definition wholeLiteral :: "string \<Rightarrow> js_number option" where
  "wholeLiteral t =
     (case scanDecimal t of
        Some (v, []) \<Rightarrow> Some v
      | _ \<Rightarrow> scanNonDecimal t)"

definition Number :: "string \<Rightarrow> js_number" where
  "Number s =
     (if trim s = [] then Finite 0
      else case wholeLiteral (trim s) of None \<Rightarrow> NaN | Some v \<Rightarrow> v)"

text \<open>
  A numeric string, in the words of the specification: a text that is a numeric literal,
  white space around it apart.
\<close>

definition numeric_string :: "string \<Rightarrow> bool" where
  "numeric_string s = (wholeLiteral (trim s) \<noteq> None)"

text \<open>A text that, after leading white space, starts with a decimal literal.\<close>

definition decimal_prefix :: "string \<Rightarrow> bool" where
  "decimal_prefix s = (scanDecimal (trimStart s) \<noteq> None)"

subsection \<open>Loading the module\<close>

text \<open>
  The process environment maps the names of the variables that are set to their texts.
  Loading the module either runs to its end and yields the exported constants, or
  terminates the process: \<open>ProcessExit n\<close> is \<open>process.exit(n)\<close>.
\<close>

type_synonym env = "string \<rightharpoonup> string"

datatype process_end = ProcessExit nat | ProcessTerminated

type_synonym 'a loading = "event list \<times> (process_end + 'a)"

definition loaded :: "'a \<Rightarrow> 'a loading" where
  "loaded x = ([], Inr x)"

definition next_statement :: "'a loading \<Rightarrow> ('a \<Rightarrow> 'b loading) \<Rightarrow> 'b loading" where
  "next_statement m f =
     (case m of
        (evs, Inl t) \<Rightarrow> (evs, Inl t)
      | (evs, Inr x) \<Rightarrow> (case f x of (evs', r) \<Rightarrow> (evs @ evs', r)))"

text \<open>
  Modelled from the spec: \<open>retrieveEnvVariable\<close> of \<open>../utils\<close>, which is not among the
  sources. In the words of the specification, it reads a value from the environment and,
  if the value is absent, logs an error that identifies the setting and terminates the
  process immediately. The specification gives no exit status for it, hence
  \<open>ProcessTerminated\<close>.
\<close>

definition retrieveEnvVariable :: "string \<Rightarrow> env \<Rightarrow> string loading" where
  "retrieveEnvVariable variableName environment =
     (case environment variableName of
        None \<Rightarrow> ([LoggerMissing variableName], Inl ProcessTerminated)
      | Some v \<Rightarrow> loaded v)"

fun join :: "string \<Rightarrow> string list \<Rightarrow> string" where
  "join sep [] = []"
| "join sep [x] = x"
| "join sep (x # y # ys) = x @ sep @ join sep (y # ys)"

definition possibleCommitments :: "string list" where
  "possibleCommitments = [''processed'', ''confirmed'', ''finalized'']"

record constants =
  NETWORK :: string
  COMMITMENT_LEVEL :: string
  RPC_ENDPOINT :: string
  RPC_WEBSOCKET_ENDPOINT :: string
  LOG_LEVEL :: string
  CHECK_IF_MINT_IS_RENOUNCED :: bool
  MAX_SELL_RETRIES :: js_number
  PRIVATE_KEY :: string
  QUOTE_MINT :: string
  QUOTE_AMOUNT :: string
  MIN_POOL_SIZE :: string
  MAX_POOL_SIZE :: string
  ONE_TOKEN_AT_A_TIME :: bool
  SELL_AFTER_GAIN_PERCENTAGE :: js_number

text \<open>The check of lines 8 to 11: \<open>includes\<close> compares with \<open>===\<close>.\<close>

definition check_commitment :: "string \<Rightarrow> unit loading" where
  "check_commitment c =
     (if c \<notin> set possibleCommitments then
        ([LoggerError [(''COMMITMENT_LEVEL'', c)]
            (''Invalid commitment level. Possible values are '' @ join '', '' possibleCommitments)],
         Inl (ProcessExit 1))
      else loaded ())"

text \<open>The statements of the module, in the order in which loading runs them.\<close>

definition load_constants :: "env \<Rightarrow> constants loading" where
  "load_constants environment =
     next_statement (retrieveEnvVariable ''COMMITMENT_LEVEL'' environment) (\<lambda>commitment.
     next_statement (check_commitment commitment) (\<lambda>_.
     next_statement (retrieveEnvVariable ''RPC_ENDPOINT'' environment) (\<lambda>rpc.
     next_statement (retrieveEnvVariable ''RPC_WEBSOCKET_ENDPOINT'' environment) (\<lambda>ws.
     next_statement (retrieveEnvVariable ''LOG_LEVEL'' environment) (\<lambda>lvl.
     next_statement (retrieveEnvVariable ''CHECK_IF_MINT_IS_RENOUNCED'' environment) (\<lambda>renounced.
     next_statement (retrieveEnvVariable ''MAX_SELL_RETRIES'' environment) (\<lambda>retries.
     next_statement (retrieveEnvVariable ''PRIVATE_KEY'' environment) (\<lambda>pk.
     next_statement (retrieveEnvVariable ''QUOTE_MINT'' environment) (\<lambda>qm.
     next_statement (retrieveEnvVariable ''QUOTE_AMOUNT'' environment) (\<lambda>qa.
     next_statement (retrieveEnvVariable ''MIN_POOL_SIZE'' environment) (\<lambda>minp.
     next_statement (retrieveEnvVariable ''MAX_POOL_SIZE'' environment) (\<lambda>maxp.
     next_statement (retrieveEnvVariable ''ONE_TOKEN_AT_A_TIME'' environment) (\<lambda>one.
     next_statement (retrieveEnvVariable ''SELL_AFTER_GAIN_PERCENTAGE'' environment) (\<lambda>gain.
       loaded \<lparr> NETWORK = ''mainnet-beta'',
                COMMITMENT_LEVEL = commitment,
                RPC_ENDPOINT = rpc,
                RPC_WEBSOCKET_ENDPOINT = ws,
                LOG_LEVEL = lvl,
                CHECK_IF_MINT_IS_RENOUNCED = (renounced = ''true''),
                MAX_SELL_RETRIES = Number retries,
                PRIVATE_KEY = pk,
                QUOTE_MINT = qm,
                QUOTE_AMOUNT = qa,
                MIN_POOL_SIZE = minp,
                MAX_POOL_SIZE = maxp,
                ONE_TOKEN_AT_A_TIME = (one = ''true''),
                SELL_AFTER_GAIN_PERCENTAGE = parseFloat gain \<rparr>))))))))))))))"

definition required_variables :: "string list" where
  "required_variables =
     [''COMMITMENT_LEVEL'', ''RPC_ENDPOINT'', ''RPC_WEBSOCKET_ENDPOINT'', ''LOG_LEVEL'',
      ''CHECK_IF_MINT_IS_RENOUNCED'', ''MAX_SELL_RETRIES'', ''PRIVATE_KEY'', ''QUOTE_MINT'',
      ''QUOTE_AMOUNT'', ''MIN_POOL_SIZE'', ''MAX_POOL_SIZE'', ''ONE_TOKEN_AT_A_TIME'',
      ''SELL_AFTER_GAIN_PERCENTAGE'']"

section \<open>liquidity.ts: createPoolKeys\<close>

text \<open>
  Sequencing of calls that may throw: the first exception ends the evaluation.
\<close>

definition andThen :: "error + 'a \<Rightarrow> ('a \<Rightarrow> error + 'b) \<Rightarrow> error + 'b" where
  "andThen m f = (case m of Inl e \<Rightarrow> Inl e | Inr x \<Rightarrow> f x)"

text \<open>
  \<open>BN.toNumber()\<close> of bn.js returns the value as a Number when it fits into 53 bits and
  fails its assertion otherwise. A \<open>BN\<close> is an unbounded integer.
\<close>

definition toNumber :: "int \<Rightarrow> error + int" where
  "toNumber n =
     (if \<bar>n\<bar> < 2 ^ 53 then Inr n
      else Inl (Error ''Number can only safely store up to 53 bits''))"

text \<open>
  The fields of \<open>LiquidityStateV4\<close> and of \<open>MinimalMarketLayoutV3\<close> that \<open>createPoolKeys\<close>
  reads, and the \<open>LiquidityPoolKeys\<close> it builds, field by field as the object literal of
  the source lists them.
\<close>

record LiquidityStateV4 =
  baseMint :: pubkey
  quoteMint :: pubkey
  lpMint :: pubkey
  baseDecimal :: int
  quoteDecimal :: int
  openOrders :: pubkey
  targetOrders :: pubkey
  baseVault :: pubkey
  quoteVault :: pubkey
  marketProgramId :: pubkey
  marketId :: pubkey
  withdrawQueue :: pubkey
  lpVault :: pubkey

record MinimalMarketLayoutV3 =
  eventQueue :: pubkey
  bids :: pubkey
  asks :: pubkey

record LiquidityPoolKeys =
  id_key :: pubkey
  baseMint :: pubkey
  quoteMint :: pubkey
  lpMint :: pubkey
  baseDecimals :: int
  quoteDecimals :: int
  lpDecimals :: int
  version :: int
  programId :: pubkey
  authority :: pubkey
  openOrders :: pubkey
  targetOrders :: pubkey
  baseVault :: pubkey
  quoteVault :: pubkey
  marketVersion :: int
  marketProgramId :: pubkey
  marketId :: pubkey
  marketAuthority :: pubkey
  marketBaseVault :: pubkey
  marketQuoteVault :: pubkey
  marketBids :: pubkey
  marketAsks :: pubkey
  marketEventQueue :: pubkey
  withdrawQueue :: pubkey
  lpVault :: pubkey
  lookupTableAccount :: pubkey

text \<open>
  What the module takes from the SDK packages: the program identifiers
  \<open>MAINNET_PROGRAM_ID.AmmV4\<close> and \<open>MAINNET_PROGRAM_ID.OPENBOOK_MARKET\<close>, \<open>PublicKey.default\<close>,
  \<open>TOKEN_PROGRAM_ID\<close>, the two authority derivations, each of which returns an object
  with a \<open>publicKey\<close> and a \<open>nonce\<close>, or throws, and the decoder of
  \<open>SPL_ACCOUNT_LAYOUT\<close>, from the bytes of a token account to its fields (of which the
  source reads \<open>mint\<close> and \<open>amount\<close>); the decoder throws when the bytes do not fit the
  layout, as on a buffer that is too short. They are parameters of the model.
\<close>

type_synonym buffer = "nat list"

record SplAccount =
  mint :: pubkey
  amount :: nat

record associated_authority =
  publicKey :: pubkey
  nonce :: nat

record sdk =
  AmmV4 :: pubkey
  OPENBOOK_MARKET :: pubkey
  PublicKey_default :: pubkey
  TOKEN_PROGRAM_ID :: pubkey
  Liquidity_getAssociatedAuthority :: "pubkey \<Rightarrow> error + associated_authority"
  Market_getAssociatedAuthority :: "pubkey \<Rightarrow> pubkey \<Rightarrow> error + associated_authority"
  SPL_ACCOUNT_LAYOUT_decode :: "buffer \<Rightarrow> error + SplAccount"

definition RAYDIUM_LIQUIDITY_PROGRAM_ID_V4 :: "sdk \<Rightarrow> pubkey" where
  "RAYDIUM_LIQUIDITY_PROGRAM_ID_V4 k = AmmV4 k"

definition OPENBOOK_PROGRAM_ID :: "sdk \<Rightarrow> pubkey" where
  "OPENBOOK_PROGRAM_ID k = OPENBOOK_MARKET k"

text \<open>
  The properties of the object literal are evaluated in the order written, so the first
  call that throws decides the exception: the two \<open>toNumber\<close> calls, then the liquidity
  authority, then the market authority.
\<close>

definition createPoolKeys ::
  "sdk \<Rightarrow> pubkey \<Rightarrow> LiquidityStateV4 \<Rightarrow> MinimalMarketLayoutV3 \<Rightarrow> error + LiquidityPoolKeys" where
  "createPoolKeys k pid accountData minimalMarketLayoutV3 =
     andThen (toNumber (baseDecimal accountData)) (\<lambda>bd.
     andThen (toNumber (quoteDecimal accountData)) (\<lambda>qd.
     andThen (Liquidity_getAssociatedAuthority k (RAYDIUM_LIQUIDITY_PROGRAM_ID_V4 k)) (\<lambda>la.
     andThen (Market_getAssociatedAuthority k
                (LiquidityStateV4.marketProgramId accountData)
                (LiquidityStateV4.marketId accountData)) (\<lambda>ma.
       Inr \<lparr> id_key = pid,
             baseMint = LiquidityStateV4.baseMint accountData,
             quoteMint = LiquidityStateV4.quoteMint accountData,
             lpMint = LiquidityStateV4.lpMint accountData,
             baseDecimals = bd,
             quoteDecimals = qd,
             lpDecimals = 5,
             version = 4,
             programId = RAYDIUM_LIQUIDITY_PROGRAM_ID_V4 k,
             authority = publicKey la,
             openOrders = LiquidityStateV4.openOrders accountData,
             targetOrders = LiquidityStateV4.targetOrders accountData,
             baseVault = LiquidityStateV4.baseVault accountData,
             quoteVault = LiquidityStateV4.quoteVault accountData,
             marketVersion = 3,
             marketProgramId = LiquidityStateV4.marketProgramId accountData,
             marketId = LiquidityStateV4.marketId accountData,
             marketAuthority = publicKey ma,
             marketBaseVault = LiquidityStateV4.baseVault accountData,
             marketQuoteVault = LiquidityStateV4.quoteVault accountData,
             marketBids = bids minimalMarketLayoutV3,
             marketAsks = asks minimalMarketLayoutV3,
             marketEventQueue = eventQueue minimalMarketLayoutV3,
             withdrawQueue = LiquidityStateV4.withdrawQueue accountData,
             lpVault = LiquidityStateV4.lpVault accountData,
             lookupTableAccount = PublicKey_default k \<rparr>))))"

section \<open>liquidity.ts: getTokenAccounts and fetchCoinPrice\<close>

text \<open>
  The records of the ledger's answer (\<open>tokenResp.value\<close>): the address of the token
  account and the account itself, of which the source reads \<open>data\<close> and \<open>owner\<close>.
\<close>

record AccountInfo =
  data :: buffer
  owner :: pubkey

record KeyedAccount =
  pubkey :: pubkey
  account :: AccountInfo

record TokenAccountWithAmountAndPrice =
  pubkey :: pubkey
  programId :: pubkey
  accountInfo :: SplAccount
  price :: "js_number option"
  amount :: nat

text \<open>
  The connection answers \<open>getTokenAccountsByOwner(owner, {programId}, commitment)\<close> with
  the records or rejects. The oracle is the Moralis client: it has a state of its own,
  which both of its operations may change, and either operation may reject. Its answer
  carries \<open>raw\<close>, the JSON of the response, whose \<open>usdPrice\<close> is a Number or is missing;
  an answer without \<open>raw\<close> makes the read of \<open>response.raw.usdPrice\<close> throw.
\<close>

record connection =
  getTokenAccountsByOwner :: "pubkey \<Rightarrow> pubkey \<Rightarrow> string option \<Rightarrow> error + KeyedAccount list"

record token_price =
  usdPrice :: "js_number option"

record price_response =
  raw :: "token_price option"

record 's moralis =
  Moralis_start :: "string \<Rightarrow> 's \<Rightarrow> (error + unit) \<times> 's"
  Moralis_getTokenPrice :: "string \<Rightarrow> string \<Rightarrow> 's \<Rightarrow> (error + price_response) \<times> 's"

record 's world =
  oracle_state :: 's
  trace :: "event list"

text \<open>
  An asynchronous function is a function of the world that returns its result, or the
  exception it rejects with, and the world it leaves. \<open>await\<close> sequences two of them and
  passes an exception on; \<open>try_catch\<close> is the \<open>try { ... } catch (e) { ... }\<close> block;
  \<open>throwing\<close> is a synchronous call that returns or throws, and leaves the world as it is.
\<close>

type_synonym ('a, 's) async = "'s world \<Rightarrow> (error + 'a) \<times> 's world"

definition resolve :: "'a \<Rightarrow> ('a, 's) async" where
  "resolve x w = (Inr x, w)"

definition reject :: "error \<Rightarrow> ('a, 's) async" where
  "reject e w = (Inl e, w)"

definition await :: "('a, 's) async \<Rightarrow> ('a \<Rightarrow> ('b, 's) async) \<Rightarrow> ('b, 's) async" where
  "await m f w = (case m w of (Inl e, w') \<Rightarrow> (Inl e, w') | (Inr x, w') \<Rightarrow> f x w')"

definition try_catch :: "('a, 's) async \<Rightarrow> (error \<Rightarrow> ('a, 's) async) \<Rightarrow> ('a, 's) async" where
  "try_catch m h w = (case m w of (Inl e, w') \<Rightarrow> h e w' | (Inr x, w') \<Rightarrow> (Inr x, w'))"

definition throwing :: "error + 'a \<Rightarrow> ('a, 's) async" where
  "throwing r w = (r, w)"

definition emit :: "event \<Rightarrow> (unit, 's) async" where
  "emit ev w = (Inr (), w\<lparr>trace := trace w @ [ev]\<rparr>)"

definition call_start :: "'s moralis \<Rightarrow> string \<Rightarrow> (unit, 's) async" where
  "call_start M apiKey w =
     (case Moralis_start M apiKey (oracle_state w) of
        (r, s') \<Rightarrow> (r, w\<lparr>oracle_state := s', trace := trace w @ [MoralisStart apiKey]\<rparr>))"

definition call_getTokenPrice :: "'s moralis \<Rightarrow> string \<Rightarrow> string \<Rightarrow> (price_response, 's) async" where
  "call_getTokenPrice M network address w =
     (case Moralis_getTokenPrice M network address (oracle_state w) of
        (r, s') \<Rightarrow> (r, w\<lparr>oracle_state := s', trace := trace w @ [MoralisGetTokenPrice network address]\<rparr>))"

definition read_raw :: "price_response \<Rightarrow> (token_price, 's) async" where
  "read_raw response =
     (case raw response of
        None \<Rightarrow> reject (Error ''TypeError: Cannot read properties of undefined (reading usdPrice)'')
      | Some r \<Rightarrow> resolve r)"

text \<open>
  \<open>fetchCoinPrice\<close>: \<open>price === 0\<close> holds exactly for the Number zero. The \<open>catch\<close> block
  writes the exception to the console and falls off the end of the function, which
  returns \<open>undefined\<close>, here \<open>None\<close>.
\<close>

definition fetchCoinPrice :: "'s moralis \<Rightarrow> string \<Rightarrow> string \<Rightarrow> (js_number option, 's) async" where
  "fetchCoinPrice M mintAddress apiKey =
     try_catch
       (await (emit (ConsoleLog [''Fetching real-time coin price:'', mintAddress, apiKey])) (\<lambda>_.
        await (call_start M apiKey) (\<lambda>_.
        await (call_getTokenPrice M ''mainnet'' mintAddress) (\<lambda>response.
        await (read_raw response) (\<lambda>r.
          let price = usdPrice r in
          if price = Some (Finite 0) then
            await (emit (ConsoleLog [''Price of coin '' @ mintAddress @ '' is 0, returning undefined'']))
              (\<lambda>_. resolve None)
          else resolve price)))))
       (\<lambda>e. await (emit (ConsoleError ''Fetching real-time coin price:'' e)) (\<lambda>_. resolve None))"

text \<open>
  The \<open>for ... of\<close> loop of \<open>getTokenAccounts\<close>, with the array \<open>accounts\<close> it pushes to.
  The call of the decoder stands outside any \<open>try\<close>: when it throws, the loop ends and
  \<open>getTokenAccounts\<close> rejects with its exception.
\<close>

fun for_tokenResp ::
  "sdk \<Rightarrow> 's moralis \<Rightarrow> string \<Rightarrow> KeyedAccount list \<Rightarrow> TokenAccountWithAmountAndPrice list
     \<Rightarrow> (TokenAccountWithAmountAndPrice list, 's) async" where
  "for_tokenResp k M MORALIS_API_KEY [] accounts = resolve accounts"
| "for_tokenResp k M MORALIS_API_KEY (r # rs) accounts =
     await (throwing (SPL_ACCOUNT_LAYOUT_decode k (data (account r)))) (\<lambda>accountInfo.
     await (fetchCoinPrice M (toBase58 (mint accountInfo)) MORALIS_API_KEY) (\<lambda>coinPrice.
       for_tokenResp k M MORALIS_API_KEY rs
         (accounts @
           [\<lparr> pubkey = KeyedAccount.pubkey r,
              programId = owner (account r),
              accountInfo = accountInfo,
              price = coinPrice,
              amount = SplAccount.amount accountInfo \<rparr>])))"

definition call_getTokenAccountsByOwner ::
  "connection \<Rightarrow> pubkey \<Rightarrow> pubkey \<Rightarrow> string option \<Rightarrow> (KeyedAccount list, 's) async" where
  "call_getTokenAccountsByOwner c ownr prog commitment w =
     (getTokenAccountsByOwner c ownr prog commitment,
      w\<lparr>trace := trace w @ [LedgerGetTokenAccountsByOwner ownr prog commitment]\<rparr>)"

definition getTokenAccounts ::
  "sdk \<Rightarrow> 's moralis \<Rightarrow> string \<Rightarrow> connection \<Rightarrow> pubkey \<Rightarrow> string option
     \<Rightarrow> (TokenAccountWithAmountAndPrice list, 's) async" where
  "getTokenAccounts k M MORALIS_API_KEY c ownr commitment =
     await (call_getTokenAccountsByOwner c ownr (TOKEN_PROGRAM_ID k) commitment) (\<lambda>tokenResp.
       for_tokenResp k M MORALIS_API_KEY tokenResp [])"

subsection \<open>The oracle's answer for a record\<close>

text \<open>
  What the oracle answers to the two requests of one \<open>fetchCoinPrice\<close> that starts in
  oracle state \<open>s\<close>: the exception of the first request that rejects, or the response to
  \<open>getTokenPrice\<close>.
\<close>

definition oracle_answer :: "'s moralis \<Rightarrow> string \<Rightarrow> string \<Rightarrow> 's \<Rightarrow> error + price_response" where
  "oracle_answer M apiKey mintAddress s =
     (case Moralis_start M apiKey s of
        (Inl e, _) \<Rightarrow> Inl e
      | (Inr _, s') \<Rightarrow> fst (Moralis_getTokenPrice M ''mainnet'' mintAddress s'))"

text \<open>
  The object that the loop pushes for a record, once the record is decoded and the price
  is known.
\<close>

definition pushed :: "KeyedAccount \<Rightarrow> SplAccount \<Rightarrow> js_number option \<Rightarrow> TokenAccountWithAmountAndPrice" where
  "pushed r info coinPrice =
     \<lparr> pubkey = KeyedAccount.pubkey r,
       programId = owner (account r),
       accountInfo = info,
       price = coinPrice,
       amount = SplAccount.amount info \<rparr>"

text \<open>
  The exception of the first record, in the order of the ledger's answer, that the decoder
  throws on; \<open>None\<close> when every record decodes.
\<close>

fun first_decode_error :: "sdk \<Rightarrow> KeyedAccount list \<Rightarrow> error option" where
  "first_decode_error k [] = None"
| "first_decode_error k (r # rs) =
     (case SPL_ACCOUNT_LAYOUT_decode k (data (account r)) of
        Inl e \<Rightarrow> Some e
      | Inr _ \<Rightarrow> first_decode_error k rs)"

text \<open>
  The world in which \<open>getTokenAccounts\<close> turns to the record of index \<open>i\<close>, after the request
  to the ledger and the records before it, and what the oracle answers there for that
  record: \<open>None\<close> when the record does not decode, so that no request is made for it.
\<close>

definition world_before_record ::
  "sdk \<Rightarrow> 's moralis \<Rightarrow> string \<Rightarrow> connection \<Rightarrow> pubkey \<Rightarrow> string option
     \<Rightarrow> KeyedAccount list \<Rightarrow> nat \<Rightarrow> 's world \<Rightarrow> 's world" where
  "world_before_record k M key c ownr commitment recs i w =
     snd (for_tokenResp k M key (take i recs) []
            (snd (call_getTokenAccountsByOwner c ownr (TOKEN_PROGRAM_ID k) commitment w)))"

definition answer_for_record ::
  "sdk \<Rightarrow> 's moralis \<Rightarrow> string \<Rightarrow> connection \<Rightarrow> pubkey \<Rightarrow> string option
     \<Rightarrow> KeyedAccount list \<Rightarrow> nat \<Rightarrow> 's world \<Rightarrow> (error + price_response) option" where
  "answer_for_record k M key c ownr commitment recs i w =
     (case SPL_ACCOUNT_LAYOUT_decode k (data (account (recs ! i))) of
        Inl e \<Rightarrow> None
      | Inr info \<Rightarrow>
          Some (oracle_answer M key (toBase58 (mint info))
                  (oracle_state (world_before_record k M key c ownr commitment recs i w))))"

section \<open>Scenarios\<close>

text \<open>
  An environment in which every variable is set: the retry count is a blank text and the
  gain percentage starts with digits and goes on with letters.
\<close>

definition example_environment :: env where
  "example_environment =
     map_of
       [(''COMMITMENT_LEVEL'', ''finalized''),
        (''RPC_ENDPOINT'', ''https://rpc.example''),
        (''RPC_WEBSOCKET_ENDPOINT'', ''wss://rpc.example''),
        (''LOG_LEVEL'', ''info''),
        (''CHECK_IF_MINT_IS_RENOUNCED'', ''true''),
        (''MAX_SELL_RETRIES'', '' ''),
        (''PRIVATE_KEY'', ''key''),
        (''QUOTE_MINT'', ''WSOL''),
        (''QUOTE_AMOUNT'', ''0.01''),
        (''MIN_POOL_SIZE'', ''5''),
        (''MAX_POOL_SIZE'', ''50''),
        (''ONE_TOKEN_AT_A_TIME'', ''false''),
        (''SELL_AFTER_GAIN_PERCENTAGE'', ''12abc'')]"

text \<open>
  A wallet with two token accounts, of mint \<open>A\<close> (amount 1000), for which the oracle
  answers 0.05, and of mint \<open>B\<close> (amount 500), for which it times out; a wallet \<open>dust\<close>
  with mint \<open>Z\<close>, priced 0, and mint \<open>N\<close>, for which the oracle answers -1; a wallet
  \<open>new\<close> without token accounts; for any other owner the ledger rejects. The oracle
  counts the prices it has served. The decoder of the scenario reads the mint from the
  first byte and the amount, little-endian, from the others, and throws on the empty
  buffer; the wallet \<open>torn\<close> has a token account of mint \<open>A\<close> and one with no bytes.
\<close>

definition scenario_decode :: "buffer \<Rightarrow> error + SplAccount" where
  "scenario_decode bs =
     (case bs of
        [] \<Rightarrow> Inl (Error ''RangeError: Trying to access beyond buffer length'')
      | b # rest \<Rightarrow>
          Inr \<lparr> mint = PublicKey (if b = 1 then ''A'' else if b = 2 then ''B''
                                  else if b = 3 then ''Z'' else ''N''),
                amount = foldr (\<lambda>d a. d + 256 * a) rest 0 \<rparr>)"

definition scenario_sdk :: sdk where
  "scenario_sdk =
     \<lparr> AmmV4 = PublicKey ''amm-v4'',
       OPENBOOK_MARKET = PublicKey ''openbook'',
       PublicKey_default = PublicKey ''11111111111111111111111111111111'',
       TOKEN_PROGRAM_ID = PublicKey ''token-program'',
       Liquidity_getAssociatedAuthority =
         (\<lambda>p. Inr \<lparr> publicKey = PublicKey (toBase58 p @ ''-authority''), nonce = 254 \<rparr>),
       Market_getAssociatedAuthority =
         (\<lambda>p m. if toBase58 m = [] then Inl (Error ''unable to find a viable program address nonce'')
                else Inr \<lparr> publicKey = PublicKey (toBase58 m @ ''-vault-signer''), nonce = 0 \<rparr>),
       SPL_ACCOUNT_LAYOUT_decode = scenario_decode \<rparr>"

definition scenario_record :: "string \<Rightarrow> buffer \<Rightarrow> KeyedAccount" where
  "scenario_record a bs =
     \<lparr> KeyedAccount.pubkey = PublicKey a, account = \<lparr> data = bs, owner = PublicKey ''token-program'' \<rparr> \<rparr>"

definition scenario_connection :: connection where
  "scenario_connection =
     \<lparr> getTokenAccountsByOwner =
         (\<lambda>ownr prog commitment.
            if ownr = PublicKey ''wallet''
              then Inr [scenario_record ''acc1'' [1, 232, 3], scenario_record ''acc2'' [2, 244, 1]]
            else if ownr = PublicKey ''dust''
              then Inr [scenario_record ''acc3'' [3, 7], scenario_record ''acc4'' [4, 9]]
            else if ownr = PublicKey ''torn''
              then Inr [scenario_record ''acc5'' [1, 232, 3], scenario_record ''acc6'' []]
            else if ownr = PublicKey ''new'' then Inr []
            else Inl (Error ''failed to get token accounts owned by account'')) \<rparr>"

definition priced :: "js_number \<Rightarrow> error + price_response" where
  "priced p = Inr \<lparr> raw = Some \<lparr> usdPrice = Some p \<rparr> \<rparr>"

definition scenario_moralis :: "nat moralis" where
  "scenario_moralis =
     \<lparr> Moralis_start = (\<lambda>apiKey served. (Inr (), served)),
       Moralis_getTokenPrice =
         (\<lambda>network address served.
            (if address = ''A'' then priced (Finite (1 / 20))
             else if address = ''B'' then Inl (Error ''timeout'')
             else if address = ''Z'' then priced (Finite 0)
             else priced (Finite (- 1)),
             Suc served)) \<rparr>"

definition scenario_world :: "nat world" where
  "scenario_world = \<lparr> oracle_state = 0, trace = [] \<rparr>"

text \<open>A pool state and a market layout, and the keys that \<open>createPoolKeys\<close> builds from them.\<close>

definition scenario_state :: LiquidityStateV4 where
  "scenario_state =
     \<lparr> LiquidityStateV4.baseMint = PublicKey ''base-mint'',
       LiquidityStateV4.quoteMint = PublicKey ''quote-mint'',
       LiquidityStateV4.lpMint = PublicKey ''lp-mint'',
       baseDecimal = 6,
       quoteDecimal = 9,
       LiquidityStateV4.openOrders = PublicKey ''open-orders'',
       LiquidityStateV4.targetOrders = PublicKey ''target-orders'',
       LiquidityStateV4.baseVault = PublicKey ''base-vault'',
       LiquidityStateV4.quoteVault = PublicKey ''quote-vault'',
       LiquidityStateV4.marketProgramId = PublicKey ''openbook'',
       LiquidityStateV4.marketId = PublicKey ''market'',
       LiquidityStateV4.withdrawQueue = PublicKey ''withdraw-queue'',
       LiquidityStateV4.lpVault = PublicKey ''lp-vault'' \<rparr>"

definition scenario_market :: MinimalMarketLayoutV3 where
  "scenario_market =
     \<lparr> eventQueue = PublicKey ''event-queue'', bids = PublicKey ''bids'', asks = PublicKey ''asks'' \<rparr>"

definition scenario_keys :: LiquidityPoolKeys where
  "scenario_keys =
     \<lparr> id_key = PublicKey ''pool'',
       baseMint = PublicKey ''base-mint'',
       quoteMint = PublicKey ''quote-mint'',
       lpMint = PublicKey ''lp-mint'',
       baseDecimals = 6,
       quoteDecimals = 9,
       lpDecimals = 5,
       version = 4,
       programId = PublicKey ''amm-v4'',
       authority = PublicKey ''amm-v4-authority'',
       openOrders = PublicKey ''open-orders'',
       targetOrders = PublicKey ''target-orders'',
       baseVault = PublicKey ''base-vault'',
       quoteVault = PublicKey ''quote-vault'',
       marketVersion = 3,
       marketProgramId = PublicKey ''openbook'',
       marketId = PublicKey ''market'',
       marketAuthority = PublicKey ''market-vault-signer'',
       marketBaseVault = PublicKey ''base-vault'',
       marketQuoteVault = PublicKey ''quote-vault'',
       marketBids = PublicKey ''bids'',
       marketAsks = PublicKey ''asks'',
       marketEventQueue = PublicKey ''event-queue'',
       withdrawQueue = PublicKey ''withdraw-queue'',
       lpVault = PublicKey ''lp-vault'',
       lookupTableAccount = PublicKey ''11111111111111111111111111111111'' \<rparr>"

section \<open>Properties of constants.ts\<close>

lemmas scan_defs =
  Number_def parseFloat_def numeric_string_def decimal_prefix_def wholeLiteral_def
  scanNonDecimal_def trim_def trimStart_def scanDecimal_def scanUnsignedDecimal_def
  scanExponent_def isStrWhiteSpaceChar_def isDecimalDigit_def radixValue_def digitValue_def
  scale10_def

lemma next_statement_loaded: "next_statement (loaded x) f = f x"
  by (cases "f x") (simp add: next_statement_def loaded_def)

lemma next_statement_nil: "next_statement ([], Inr x) f = f x"
  by (cases "f x") (simp add: next_statement_def)

lemma next_statement_ended: "next_statement (evs, Inl t) f = (evs, Inl t)"
  by (simp add: next_statement_def)

lemma next_statement_retrieve:
  "next_statement (retrieveEnvVariable n environment) f =
     (case environment n of
        None \<Rightarrow> ([LoggerMissing n], Inl ProcessTerminated)
      | Some v \<Rightarrow> f v)"
  by (simp add: retrieveEnvVariable_def next_statement_loaded next_statement_ended
        split: option.splits)

lemma check_commitment_valid:
  "c \<in> set possibleCommitments \<Longrightarrow> check_commitment c = loaded ()"
  by (simp add: check_commitment_def)

lemma check_commitment_invalid:
  "c \<notin> set possibleCommitments \<Longrightarrow>
     check_commitment c =
       ([LoggerError [(''COMMITMENT_LEVEL'', c)]
           ''Invalid commitment level. Possible values are processed, confirmed, finalized''],
        Inl (ProcessExit 1))"
  by (simp add: check_commitment_def possibleCommitments_def)

lemma load_constants_invalid:
  assumes "environment ''COMMITMENT_LEVEL'' = Some c" and "c \<notin> set possibleCommitments"
  shows "load_constants environment =
           ([LoggerError [(''COMMITMENT_LEVEL'', c)]
               ''Invalid commitment level. Possible values are processed, confirmed, finalized''],
            Inl (ProcessExit 1))"
  unfolding load_constants_def
  by (simp add: next_statement_retrieve assms(1) check_commitment_invalid [OF assms(2)]
        next_statement_ended)

lemma load_constants_valid:
  assumes "environment ''COMMITMENT_LEVEL'' = Some c" and "c \<in> set possibleCommitments"
  shows "(\<exists>cfg. load_constants environment = ([], Inr cfg) \<and> COMMITMENT_LEVEL cfg = c)
       \<or> (\<exists>n \<in> set required_variables. environment n = None
              \<and> load_constants environment = ([LoggerMissing n], Inl ProcessTerminated))"
  unfolding load_constants_def
  by (simp add: next_statement_retrieve assms(1) check_commitment_valid [OF assms(2)]
        next_statement_nil required_variables_def loaded_def split: option.splits)


lemma scanUnsignedDecimal_not_NaN: "scanUnsignedDecimal s = Some (v, r) \<Longrightarrow> v \<noteq> NaN"
  by (auto simp: scanUnsignedDecimal_def Let_def split: if_splits prod.splits)

lemma negate_NaN_iff: "negate v = NaN \<longleftrightarrow> v = NaN"
  by (cases v) simp_all

lemma scanDecimal_not_NaN: "scanDecimal s = Some (v, r) \<Longrightarrow> v \<noteq> NaN"
  by (auto simp: scanDecimal_def negate_NaN_iff split: if_splits dest: scanUnsignedDecimal_not_NaN)

lemma scanNonDecimal_not_NaN: "scanNonDecimal s = Some v \<Longrightarrow> v \<noteq> NaN"
  by (auto simp: scanNonDecimal_def split: list.splits if_splits)

lemma wholeLiteral_not_NaN: "wholeLiteral s = Some v \<Longrightarrow> v \<noteq> NaN"
  by (auto simp: wholeLiteral_def split: option.splits prod.splits list.splits
        dest: scanDecimal_not_NaN scanNonDecimal_not_NaN)

lemma Number_NaN_iff: "Number s = NaN \<longleftrightarrow> trim s \<noteq> [] \<and> \<not> numeric_string s"
  by (auto simp: Number_def numeric_string_def split: option.splits dest: wholeLiteral_not_NaN)

lemma parseFloat_NaN_iff: "parseFloat s = NaN \<longleftrightarrow> \<not> decimal_prefix s"
  by (auto simp: parseFloat_def decimal_prefix_def split: option.splits dest: scanDecimal_not_NaN)

lemma load_constants_events:
  "fst (load_constants environment) = [] 
   \<or> (\<exists>n. fst (load_constants environment) = [LoggerMissing n])
   \<or> (\<exists>b m. fst (load_constants environment) = [LoggerError b m])"
  unfolding load_constants_def
  by (simp add: next_statement_retrieve check_commitment_def
        next_statement_nil next_statement_ended loaded_def split: option.splits)

lemma load_constants_no_network_call:
  "filter is_network_call (fst (load_constants environment)) = []"
  using load_constants_events [of environment] by auto

lemma load_constants_loaded:
  assumes "\<forall>n \<in> set required_variables. environment n \<noteq> None"
    and "environment ''COMMITMENT_LEVEL'' = Some c" and "c \<in> set possibleCommitments"
  shows "\<exists>cfg. load_constants environment = ([], Inr cfg) \<and> COMMITMENT_LEVEL cfg = c
           \<and> MAX_SELL_RETRIES cfg = Number (the (environment ''MAX_SELL_RETRIES''))
           \<and> SELL_AFTER_GAIN_PERCENTAGE cfg =
               parseFloat (the (environment ''SELL_AFTER_GAIN_PERCENTAGE''))"
proof -
  have s: "next_statement (retrieveEnvVariable n environment) f = f (the (environment n))"
    if "n \<in> set required_variables" for n and f :: "string \<Rightarrow> 'b loading"
    using assms(1) that by (auto simp: next_statement_retrieve split: option.splits)
  have c: "the (environment ''COMMITMENT_LEVEL'') = c"
    using assms(2) by simp
  show ?thesis
    unfolding load_constants_def
    by (simp add: s required_variables_def next_statement_nil c
          check_commitment_valid [OF assms(3)] loaded_def)
qed

text \<open>
  C6. When the value of \<open>COMMITMENT_LEVEL\<close> is not one of \<open>processed\<close>, \<open>confirmed\<close>,
  \<open>finalized\<close>, loading the module logs the error and ends the process with exit status 1,
  which is not zero; loading makes no request to the ledger or to the oracle, whatever
  the environment. When the value is one of the three, loading goes on: it ends with the
  constants, or at a later variable that is not set, and with all variables set it ends
  with the constants.
\<close>

theorem commitment_level_checked:
  assumes "environment ''COMMITMENT_LEVEL'' = Some c"
  shows "(c \<notin> set possibleCommitments \<longrightarrow>
            load_constants environment =
              ([LoggerError [(''COMMITMENT_LEVEL'', c)]
                  ''Invalid commitment level. Possible values are processed, confirmed, finalized''],
               Inl (ProcessExit 1))
          \<and> (\<exists>code. snd (load_constants environment) = Inl (ProcessExit code) \<and> code \<noteq> 0))
       \<and> filter is_network_call (fst (load_constants environment)) = []
       \<and> (c \<in> set possibleCommitments \<longrightarrow>
            ((\<exists>cfg. load_constants environment = ([], Inr cfg) \<and> COMMITMENT_LEVEL cfg = c)
             \<or> (\<exists>n \<in> set required_variables. environment n = None
                   \<and> load_constants environment = ([LoggerMissing n], Inl ProcessTerminated)))
          \<and> ((\<forall>n \<in> set required_variables. environment n \<noteq> None) \<longrightarrow>
               (\<exists>cfg. load_constants environment = ([], Inr cfg) \<and> COMMITMENT_LEVEL cfg = c)))"
proof (intro conjI impI)
  assume bad: "c \<notin> set possibleCommitments"
  show "load_constants environment =
              ([LoggerError [(''COMMITMENT_LEVEL'', c)]
                  ''Invalid commitment level. Possible values are processed, confirmed, finalized''],
               Inl (ProcessExit 1))"
    by (rule load_constants_invalid [of environment, OF assms bad])
  then show "\<exists>code. snd (load_constants environment) = Inl (ProcessExit code) \<and> code \<noteq> 0"
    by simp
next
  show "filter is_network_call (fst (load_constants environment)) = []"
    by (rule load_constants_no_network_call)
next
  assume ok: "c \<in> set possibleCommitments"
  show "(\<exists>cfg. load_constants environment = ([], Inr cfg) \<and> COMMITMENT_LEVEL cfg = c)
             \<or> (\<exists>n \<in> set required_variables. environment n = None
                   \<and> load_constants environment = ([LoggerMissing n], Inl ProcessTerminated))"
    by (rule load_constants_valid [of environment, OF assms ok])
next
  assume ok: "c \<in> set possibleCommitments"
    and all: "\<forall>n \<in> set required_variables. environment n \<noteq> None"
  from load_constants_loaded [of environment, OF all assms ok]
  show "\<exists>cfg. load_constants environment = ([], Inr cfg) \<and> COMMITMENT_LEVEL cfg = c"
    by blast
qed

theorem commitment_level_checked_witness:
  "load_constants (example_environment(''COMMITMENT_LEVEL'' \<mapsto> ''urgent'')) =
     ([LoggerError [(''COMMITMENT_LEVEL'', ''urgent'')]
         ''Invalid commitment level. Possible values are processed, confirmed, finalized''],
      Inl (ProcessExit 1))
   \<and> (\<exists>cfg. load_constants example_environment = ([], Inr cfg)
          \<and> COMMITMENT_LEVEL cfg = ''finalized'')"
  using commitment_level_checked [of "example_environment(''COMMITMENT_LEVEL'' \<mapsto> ''urgent'')" "''urgent''"]
    commitment_level_checked [of example_environment "''finalized''"]
  by (simp add: example_environment_def possibleCommitments_def required_variables_def)

text \<open>
  C10, as stated, fails: \<open>12abc\<close> is not a numeric string, and \<open>parseFloat\<close> reads 12 from
  it; a text of one space is not a numeric string, and \<open>Number\<close> reads 0 from it.
\<close>

theorem non_numeric_text_counterexample:
  "example_environment ''SELL_AFTER_GAIN_PERCENTAGE'' = Some ''12abc''
   \<and> \<not> numeric_string ''12abc''
   \<and> map_sum id SELL_AFTER_GAIN_PERCENTAGE (snd (load_constants example_environment)) = Inr (Finite 12)
   \<and> example_environment ''MAX_SELL_RETRIES'' = Some '' ''
   \<and> \<not> numeric_string '' ''
   \<and> map_sum id MAX_SELL_RETRIES (snd (load_constants example_environment)) = Inr (Finite 0)
   \<and> Finite 12 \<noteq> NaN \<and> Finite 0 \<noteq> NaN"
proof -
  have "\<forall>n \<in> set required_variables. example_environment n \<noteq> None"
    by (simp add: example_environment_def required_variables_def)
  moreover have "example_environment ''COMMITMENT_LEVEL'' = Some ''finalized''"
    by (simp add: example_environment_def)
  moreover have "''finalized'' \<in> set possibleCommitments"
    by (simp add: possibleCommitments_def)
  ultimately obtain cfg where cfg: "load_constants example_environment = ([], Inr cfg)"
    "MAX_SELL_RETRIES cfg = Number (the (example_environment ''MAX_SELL_RETRIES''))"
    "SELL_AFTER_GAIN_PERCENTAGE cfg = parseFloat (the (example_environment ''SELL_AFTER_GAIN_PERCENTAGE''))"
    using load_constants_loaded by blast
  have g: "example_environment ''SELL_AFTER_GAIN_PERCENTAGE'' = Some ''12abc''"
    and m: "example_environment ''MAX_SELL_RETRIES'' = Some '' ''"
    by (simp_all add: example_environment_def)
  have "parseFloat ''12abc'' = Finite 12" by (simp add: scan_defs)
  moreover have "Number '' '' = Finite 0" by (simp add: scan_defs)
  moreover have "\<not> numeric_string ''12abc''" by (simp add: scan_defs)
  moreover have "\<not> numeric_string '' ''" by (simp add: scan_defs)
  ultimately show ?thesis
    using cfg g m by simp
qed

text \<open>
  C10, amended. With every variable set and \<open>COMMITMENT_LEVEL\<close> one of the three values,
  loading ends with the constants whatever the texts of \<open>MAX_SELL_RETRIES\<close> and
  \<open>SELL_AFTER_GAIN_PERCENTAGE\<close>: the first constant is \<open>Number\<close> of its text, which is
  \<open>NaN\<close> exactly when the text is neither blank nor a numeric string; the second is
  \<open>parseFloat\<close> of its text, which is \<open>NaN\<close> exactly when the text does not start, after
  leading white space, with a decimal literal.
\<close>

theorem numbers_not_validated:
  assumes "\<forall>n \<in> set required_variables. environment n \<noteq> None"
    and "environment ''COMMITMENT_LEVEL'' = Some c" and "c \<in> set possibleCommitments"
    and "environment ''MAX_SELL_RETRIES'' = Some m"
    and "environment ''SELL_AFTER_GAIN_PERCENTAGE'' = Some g"
  shows "\<exists>cfg. load_constants environment = ([], Inr cfg)
           \<and> MAX_SELL_RETRIES cfg = Number m
           \<and> SELL_AFTER_GAIN_PERCENTAGE cfg = parseFloat g
           \<and> (MAX_SELL_RETRIES cfg = NaN \<longleftrightarrow> trim m \<noteq> [] \<and> \<not> numeric_string m)
           \<and> (SELL_AFTER_GAIN_PERCENTAGE cfg = NaN \<longleftrightarrow> \<not> decimal_prefix g)"
  using load_constants_loaded [of environment, OF assms(1-3)] assms(4,5)
  by (auto simp: Number_NaN_iff parseFloat_NaN_iff)

theorem numbers_not_validated_witness:
  "\<exists>cfg. load_constants
            (example_environment(''MAX_SELL_RETRIES'' \<mapsto> ''ten'',
               ''SELL_AFTER_GAIN_PERCENTAGE'' \<mapsto> ''high'')) = ([], Inr cfg)
         \<and> MAX_SELL_RETRIES cfg = NaN \<and> SELL_AFTER_GAIN_PERCENTAGE cfg = NaN"
proof -
  let ?e = "example_environment(''MAX_SELL_RETRIES'' \<mapsto> ''ten'',
               ''SELL_AFTER_GAIN_PERCENTAGE'' \<mapsto> ''high'')"
  have 1: "\<forall>n \<in> set required_variables. ?e n \<noteq> None"
    by (simp add: example_environment_def required_variables_def)
  have 2: "?e ''COMMITMENT_LEVEL'' = Some ''finalized''"
    by (simp add: example_environment_def)
  have 3: "''finalized'' \<in> set possibleCommitments"
    by (simp add: possibleCommitments_def)
  have 4: "?e ''MAX_SELL_RETRIES'' = Some ''ten''" by simp
  have 5: "?e ''SELL_AFTER_GAIN_PERCENTAGE'' = Some ''high''" by simp
  have 6: "Number ''ten'' = NaN" by (simp add: scan_defs)
  have 7: "parseFloat ''high'' = NaN" by (simp add: scan_defs)
  from numbers_not_validated [of ?e, OF 1 2 3 4 5] show ?thesis
    using 6 7 by auto
qed

section \<open>Properties of liquidity.ts\<close>

lemma fetchCoinPrice_fst:
  "fst (fetchCoinPrice M a key w) =
     Inr (case oracle_answer M key a (oracle_state w) of
            Inl e \<Rightarrow> None
          | Inr response \<Rightarrow>
              (case raw response of
                 None \<Rightarrow> None
               | Some r \<Rightarrow> if usdPrice r = Some (Finite 0) then None else usdPrice r))"
  by (simp add: fetchCoinPrice_def try_catch_def await_def emit_def call_start_def
        call_getTokenPrice_def read_raw_def resolve_def reject_def oracle_answer_def Let_def
        split: prod.splits sum.splits option.splits)

lemma fetchCoinPrice_resolves: "\<exists>p w'. fetchCoinPrice M a key w = (Inr p, w')"
  using fetchCoinPrice_fst [of M a key w]
  by (cases "fetchCoinPrice M a key w") auto

lemma for_tokenResp_Nil: "for_tokenResp k M key [] acc w = (Inr acc, w)"
  by (simp add: resolve_def)

lemma for_tokenResp_step:
  "for_tokenResp k M key (r # rs) acc w =
     (case SPL_ACCOUNT_LAYOUT_decode k (data (account r)) of
        Inl e \<Rightarrow> (Inl e, w)
      | Inr info \<Rightarrow>
          (case fetchCoinPrice M (toBase58 (mint info)) key w of
             (Inl e, w1) \<Rightarrow> (Inl e, w1)
           | (Inr p, w1) \<Rightarrow> for_tokenResp k M key rs (acc @ [pushed r info p]) w1))"
  by (simp add: await_def throwing_def pushed_def split: prod.splits sum.splits)

declare for_tokenResp.simps [simp del]

lemma for_tokenResp_acc:
  "for_tokenResp k M key rs acc w =
     (case for_tokenResp k M key rs [] w of
        (Inl e, w') \<Rightarrow> (Inl e, w')
      | (Inr hs, w') \<Rightarrow> (Inr (acc @ hs), w'))"
proof (induction rs arbitrary: acc w)
  case Nil
  show ?case by (simp add: for_tokenResp_Nil)
next
  case (Cons r rs)
  show ?case
  proof (cases "SPL_ACCOUNT_LAYOUT_decode k (data (account r))")
    case (Inl e)
    then show ?thesis by (simp add: for_tokenResp_step)
  next
    case (Inr info)
    obtain p w1 where f: "fetchCoinPrice M (toBase58 (mint info)) key w = (Inr p, w1)"
      using fetchCoinPrice_resolves by blast
    show ?thesis
      by (simp add: for_tokenResp_step Inr f Cons.IH [of "acc @ [pushed r info p]"]
            Cons.IH [of "[pushed r info p]"] split: prod.splits sum.splits)
  qed
qed

lemma for_tokenResp_Cons:
  "for_tokenResp k M key (r # rs) [] w =
     (case SPL_ACCOUNT_LAYOUT_decode k (data (account r)) of
        Inl e \<Rightarrow> (Inl e, w)
      | Inr info \<Rightarrow>
          (case fetchCoinPrice M (toBase58 (mint info)) key w of
             (Inl e, w1) \<Rightarrow> (Inl e, w1)
           | (Inr p, w1) \<Rightarrow>
               (case for_tokenResp k M key rs [] w1 of
                  (Inl e, w') \<Rightarrow> (Inl e, w')
                | (Inr hs, w') \<Rightarrow> (Inr (pushed r info p # hs), w'))))"
  unfolding for_tokenResp_step [of k M key r rs "[]"]
  by (simp add: for_tokenResp_acc [of k M key rs "[pushed r _ _]"] split: prod.splits sum.splits)

lemma for_tokenResp_Cons_Inr:
  assumes "for_tokenResp k M key (r # rs) [] w = (Inr hs, w')"
  shows "\<exists>info p w1 hs1.
           SPL_ACCOUNT_LAYOUT_decode k (data (account r)) = Inr info
         \<and> fetchCoinPrice M (toBase58 (mint info)) key w = (Inr p, w1)
         \<and> for_tokenResp k M key rs [] w1 = (Inr hs1, w')
         \<and> hs = pushed r info p # hs1"
  using assms
  by (auto simp: for_tokenResp_Cons split: sum.splits prod.splits)

lemma for_tokenResp_rejects_iff:
  "fst (for_tokenResp k M key rs [] w) = Inl e \<longleftrightarrow> first_decode_error k rs = Some e"
proof (induction rs arbitrary: w)
  case Nil
  show ?case by (simp add: for_tokenResp_Nil)
next
  case (Cons r rs)
  show ?case
  proof (cases "SPL_ACCOUNT_LAYOUT_decode k (data (account r))")
    case (Inl e')
    then show ?thesis by (simp add: for_tokenResp_Cons)
  next
    case (Inr info)
    obtain p w1 where f: "fetchCoinPrice M (toBase58 (mint info)) key w = (Inr p, w1)"
      using fetchCoinPrice_resolves by blast
    have "fst (for_tokenResp k M key (r # rs) [] w) = Inl e
            \<longleftrightarrow> fst (for_tokenResp k M key rs [] w1) = Inl e"
      by (cases "for_tokenResp k M key rs [] w1")
        (simp add: for_tokenResp_Cons Inr f split: sum.splits)
    with Cons.IH [of w1] Inr show ?thesis
      by simp
  qed
qed

lemma for_tokenResp_resolves:
  assumes "first_decode_error k rs = None"
  shows "\<exists>hs w'. for_tokenResp k M key rs [] w = (Inr hs, w')"
proof (cases "for_tokenResp k M key rs [] w")
  case (Pair x w')
  show ?thesis
  proof (cases x)
    case (Inl e)
    with Pair for_tokenResp_rejects_iff [of k M key rs w e] assms show ?thesis
      by simp
  next
    case (Inr hs)
    with Pair show ?thesis by simp
  qed
qed

lemma for_tokenResp_decoded:
  assumes "for_tokenResp k M key rs [] w = (Inr hs, w')"
  shows "first_decode_error k rs = None"
proof (cases "first_decode_error k rs")
  case None
  then show ?thesis .
next
  case (Some e)
  with for_tokenResp_rejects_iff [of k M key rs w e] assms show ?thesis
    by simp
qed

lemma first_decode_error_take:
  "first_decode_error k rs = None \<Longrightarrow> first_decode_error k (take j rs) = None"
proof (induction rs arbitrary: j)
  case Nil
  show ?case by simp
next
  case (Cons r rs)
  then show ?case
    by (cases j) (auto split: sum.splits)
qed

lemma for_tokenResp_fields:
  "for_tokenResp k M key rs [] w = (Inr hs, w') \<Longrightarrow>
     map TokenAccountWithAmountAndPrice.pubkey hs = map KeyedAccount.pubkey rs
   \<and> map programId hs = map (\<lambda>r. owner (account r)) rs
   \<and> map (\<lambda>h. Inr (accountInfo h)) hs = map (\<lambda>r. SPL_ACCOUNT_LAYOUT_decode k (data (account r))) rs
   \<and> map amount hs = map (\<lambda>h. SplAccount.amount (accountInfo h)) hs"
proof (induction rs arbitrary: w hs w')
  case Nil
  then show ?case by (simp add: for_tokenResp_Nil)
next
  case (Cons r rs)
  from for_tokenResp_Cons_Inr [OF Cons.prems]
  obtain info p w1 hs1 where
    d: "SPL_ACCOUNT_LAYOUT_decode k (data (account r)) = Inr info"
    and l: "for_tokenResp k M key rs [] w1 = (Inr hs1, w')"
    and hs: "hs = pushed r info p # hs1"
    by blast
  from Cons.IH [OF l] show ?case
    by (simp add: hs d pushed_def)
qed

lemma for_tokenResp_price:
  "for_tokenResp k M key rs [] w = (Inr hs, w') \<Longrightarrow> i < length rs \<Longrightarrow>
     \<exists>info. SPL_ACCOUNT_LAYOUT_decode k (data (account (rs ! i))) = Inr info
       \<and> fst (fetchCoinPrice M (toBase58 (mint info)) key
                (snd (for_tokenResp k M key (take i rs) [] w))) = Inr (price (hs ! i))"
proof (induction rs arbitrary: w hs i w')
  case Nil
  then show ?case by simp
next
  case (Cons r rs)
  from for_tokenResp_Cons_Inr [OF Cons.prems(1)]
  obtain info p w1 hs1 where
    d: "SPL_ACCOUNT_LAYOUT_decode k (data (account r)) = Inr info"
    and f: "fetchCoinPrice M (toBase58 (mint info)) key w = (Inr p, w1)"
    and l: "for_tokenResp k M key rs [] w1 = (Inr hs1, w')"
    and hs: "hs = pushed r info p # hs1"
    by blast
  show ?case
  proof (cases i)
    case 0
    then show ?thesis
      by (simp add: for_tokenResp_Nil d f hs pushed_def)
  next
    case (Suc j)
    with Cons.prems(2) have j: "j < length rs" by simp
    have "first_decode_error k (take j rs) = None"
      by (rule first_decode_error_take [OF for_tokenResp_decoded [OF l]])
    then obtain hsj wj where t: "for_tokenResp k M key (take j rs) [] w1 = (Inr hsj, wj)"
      using for_tokenResp_resolves by blast
    from Cons.IH [OF l j] show ?thesis
      by (simp add: Suc hs for_tokenResp_Cons d f t)
  qed
qed

lemmas async_defs =
  getTokenAccounts_def call_getTokenAccountsByOwner_def fetchCoinPrice_def try_catch_def
  await_def emit_def call_start_def call_getTokenPrice_def read_raw_def resolve_def reject_def
  throwing_def

lemmas scenario_defs =
  scenario_sdk_def scenario_decode_def scenario_record_def scenario_connection_def
  scenario_moralis_def scenario_world_def priced_def

lemma getTokenAccounts_run:
  "getTokenAccounts k M key c ownr commitment w =
     (case getTokenAccountsByOwner c ownr (TOKEN_PROGRAM_ID k) commitment of
        Inl e \<Rightarrow>
          (Inl e, w\<lparr>trace := trace w @ [LedgerGetTokenAccountsByOwner ownr (TOKEN_PROGRAM_ID k) commitment]\<rparr>)
      | Inr recs \<Rightarrow>
          for_tokenResp k M key recs []
            (w\<lparr>trace := trace w @ [LedgerGetTokenAccountsByOwner ownr (TOKEN_PROGRAM_ID k) commitment]\<rparr>))"
  by (simp add: getTokenAccounts_def call_getTokenAccountsByOwner_def await_def split: sum.splits)

lemma getTokenAccounts_loop:
  assumes "getTokenAccountsByOwner c ownr (TOKEN_PROGRAM_ID k) commitment = Inr recs"
    and "fst (getTokenAccounts k M key c ownr commitment w) = Inr hs"
  shows "\<exists>w'. for_tokenResp k M key recs []
                 (w\<lparr>trace := trace w @ [LedgerGetTokenAccountsByOwner ownr (TOKEN_PROGRAM_ID k) commitment]\<rparr>) =
               (Inr hs, w')"
  using assms
  by (cases "for_tokenResp k M key recs []
                 (w\<lparr>trace := trace w @ [LedgerGetTokenAccountsByOwner ownr (TOKEN_PROGRAM_ID k) commitment]\<rparr>)")
    (simp add: getTokenAccounts_run)

lemma getTokenAccounts_fields:
  assumes "getTokenAccountsByOwner c ownr (TOKEN_PROGRAM_ID k) commitment = Inr recs"
    and "fst (getTokenAccounts k M key c ownr commitment w) = Inr hs"
  shows "length hs = length recs
       \<and> map TokenAccountWithAmountAndPrice.pubkey hs = map KeyedAccount.pubkey recs
       \<and> map programId hs = map (\<lambda>r. owner (account r)) recs
       \<and> map (\<lambda>h. Inr (accountInfo h)) hs =
           map (\<lambda>r. SPL_ACCOUNT_LAYOUT_decode k (data (account r))) recs
       \<and> map amount hs = map (\<lambda>h. SplAccount.amount (accountInfo h)) hs"
proof -
  obtain w' where l: "for_tokenResp k M key recs []
                 (w\<lparr>trace := trace w @ [LedgerGetTokenAccountsByOwner ownr (TOKEN_PROGRAM_ID k) commitment]\<rparr>) =
               (Inr hs, w')"
    using getTokenAccounts_loop [OF assms] by blast
  note f = for_tokenResp_fields [OF l]
  from f have "length (map TokenAccountWithAmountAndPrice.pubkey hs) = length (map KeyedAccount.pubkey recs)"
    by simp
  then have "length hs = length recs"
    by simp
  with f show ?thesis
    by blast
qed

lemma getTokenAccounts_price:
  assumes "getTokenAccountsByOwner c ownr (TOKEN_PROGRAM_ID k) commitment = Inr recs"
    and "fst (getTokenAccounts k M key c ownr commitment w) = Inr hs"
    and "i < length recs"
  shows "\<exists>a. answer_for_record k M key c ownr commitment recs i w = Some a
       \<and> price (hs ! i) =
           (case a of
              Inl e \<Rightarrow> None
            | Inr response \<Rightarrow>
                (case raw response of
                   None \<Rightarrow> None
                 | Some r \<Rightarrow> if usdPrice r = Some (Finite 0) then None else usdPrice r))"
proof -
  let ?w1 = "w\<lparr>trace := trace w @ [LedgerGetTokenAccountsByOwner ownr (TOKEN_PROGRAM_ID k) commitment]\<rparr>"
  obtain w' where l: "for_tokenResp k M key recs [] ?w1 = (Inr hs, w')"
    using getTokenAccounts_loop [OF assms(1,2)] by blast
  from for_tokenResp_price [OF l assms(3)]
  obtain info where d: "SPL_ACCOUNT_LAYOUT_decode k (data (account (recs ! i))) = Inr info"
    and p: "fst (fetchCoinPrice M (toBase58 (mint info)) key
               (snd (for_tokenResp k M key (take i recs) [] ?w1))) = Inr (price (hs ! i))"
    by blast
  from p show ?thesis
    by (simp add: fetchCoinPrice_fst answer_for_record_def world_before_record_def
          call_getTokenAccountsByOwner_def d)
qed

lemma getTokenAccounts_resolves:
  assumes "getTokenAccountsByOwner c ownr (TOKEN_PROGRAM_ID k) commitment = Inr recs"
    and "first_decode_error k recs = None"
  shows "\<exists>hs w'. getTokenAccounts k M key c ownr commitment w = (Inr hs, w')"
proof -
  let ?w1 = "w\<lparr>trace := trace w @ [LedgerGetTokenAccountsByOwner ownr (TOKEN_PROGRAM_ID k) commitment]\<rparr>"
  obtain hs w' where "for_tokenResp k M key recs [] ?w1 = (Inr hs, w')"
    using for_tokenResp_resolves [OF assms(2)] by blast
  then show ?thesis
    by (simp add: getTokenAccounts_run assms(1))
qed

lemma getTokenAccounts_rejects_iff:
  "fst (getTokenAccounts k M key c ownr commitment w) = Inl e \<longleftrightarrow>
     getTokenAccountsByOwner c ownr (TOKEN_PROGRAM_ID k) commitment = Inl e
   \<or> (\<exists>recs. getTokenAccountsByOwner c ownr (TOKEN_PROGRAM_ID k) commitment = Inr recs
         \<and> first_decode_error k recs = Some e)"
proof (cases "getTokenAccountsByOwner c ownr (TOKEN_PROGRAM_ID k) commitment")
  case (Inl e')
  then show ?thesis by (simp add: getTokenAccounts_run)
next
  case (Inr recs)
  then show ?thesis
    by (simp add: getTokenAccounts_run for_tokenResp_rejects_iff)
qed

lemma scenario_wallet_ledger:
  "getTokenAccountsByOwner scenario_connection (PublicKey ''wallet'')
      (TOKEN_PROGRAM_ID scenario_sdk) None =
     Inr [scenario_record ''acc1'' [1, 232, 3], scenario_record ''acc2'' [2, 244, 1]]"
  by (simp add: scenario_defs)

lemma scenario_dust_ledger:
  "getTokenAccountsByOwner scenario_connection (PublicKey ''dust'')
      (TOKEN_PROGRAM_ID scenario_sdk) None =
     Inr [scenario_record ''acc3'' [3, 7], scenario_record ''acc4'' [4, 9]]"
  by (simp add: scenario_defs)

lemma scenario_torn_ledger:
  "getTokenAccountsByOwner scenario_connection (PublicKey ''torn'')
      (TOKEN_PROGRAM_ID scenario_sdk) None =
     Inr [scenario_record ''acc5'' [1, 232, 3], scenario_record ''acc6'' []]"
  by (simp add: scenario_defs)

lemma scenario_wallet_decodes:
  "first_decode_error scenario_sdk
     [scenario_record ''acc1'' [1, 232, 3], scenario_record ''acc2'' [2, 244, 1]] = None"
  by (simp add: scenario_defs)

lemma scenario_dust_decodes:
  "first_decode_error scenario_sdk
     [scenario_record ''acc3'' [3, 7], scenario_record ''acc4'' [4, 9]] = None"
  by (simp add: scenario_defs)

lemma scenario_torn_decode_error:
  "first_decode_error scenario_sdk
     [scenario_record ''acc5'' [1, 232, 3], scenario_record ''acc6'' []] =
   Some (Error ''RangeError: Trying to access beyond buffer length'')"
  by (simp add: scenario_defs)

lemma scenario_wallet_run:
  "getTokenAccounts scenario_sdk scenario_moralis ''api-key'' scenario_connection
     (PublicKey ''wallet'') None scenario_world =
   (Inr [\<lparr> pubkey = PublicKey ''acc1'', programId = PublicKey ''token-program'',
            accountInfo = \<lparr> mint = PublicKey ''A'', amount = 1000 \<rparr>,
            price = Some (Finite (1 / 20)), amount = 1000 \<rparr>,
         \<lparr> pubkey = PublicKey ''acc2'', programId = PublicKey ''token-program'',
            accountInfo = \<lparr> mint = PublicKey ''B'', amount = 500 \<rparr>,
            price = None, amount = 500 \<rparr>],
    \<lparr> oracle_state = 2,
      trace =
        [LedgerGetTokenAccountsByOwner (PublicKey ''wallet'') (PublicKey ''token-program'') None,
         ConsoleLog [''Fetching real-time coin price:'', ''A'', ''api-key''],
         MoralisStart ''api-key'',
         MoralisGetTokenPrice ''mainnet'' ''A'',
         ConsoleLog [''Fetching real-time coin price:'', ''B'', ''api-key''],
         MoralisStart ''api-key'',
         MoralisGetTokenPrice ''mainnet'' ''B'',
         ConsoleError ''Fetching real-time coin price:'' (Error ''timeout'')] \<rparr>)"
  by (simp add: async_defs scenario_defs for_tokenResp.simps Let_def)

lemma scenario_dust_run:
  "getTokenAccounts scenario_sdk scenario_moralis ''api-key'' scenario_connection
     (PublicKey ''dust'') None scenario_world =
   (Inr [\<lparr> pubkey = PublicKey ''acc3'', programId = PublicKey ''token-program'',
            accountInfo = \<lparr> mint = PublicKey ''Z'', amount = 7 \<rparr>,
            price = None, amount = 7 \<rparr>,
         \<lparr> pubkey = PublicKey ''acc4'', programId = PublicKey ''token-program'',
            accountInfo = \<lparr> mint = PublicKey ''N'', amount = 9 \<rparr>,
            price = Some (Finite (- 1)), amount = 9 \<rparr>],
    \<lparr> oracle_state = 2,
      trace =
        [LedgerGetTokenAccountsByOwner (PublicKey ''dust'') (PublicKey ''token-program'') None,
         ConsoleLog [''Fetching real-time coin price:'', ''Z'', ''api-key''],
         MoralisStart ''api-key'',
         MoralisGetTokenPrice ''mainnet'' ''Z'',
         ConsoleLog [''Price of coin Z is 0, returning undefined''],
         ConsoleLog [''Fetching real-time coin price:'', ''N'', ''api-key''],
         MoralisStart ''api-key'',
         MoralisGetTokenPrice ''mainnet'' ''N''] \<rparr>)"
  by (simp add: async_defs scenario_defs for_tokenResp.simps Let_def)

lemma scenario_torn_run:
  "getTokenAccounts scenario_sdk scenario_moralis ''api-key'' scenario_connection
     (PublicKey ''torn'') None scenario_world =
   (Inl (Error ''RangeError: Trying to access beyond buffer length''),
    \<lparr> oracle_state = 1,
      trace =
        [LedgerGetTokenAccountsByOwner (PublicKey ''torn'') (PublicKey ''token-program'') None,
         ConsoleLog [''Fetching real-time coin price:'', ''A'', ''api-key''],
         MoralisStart ''api-key'',
         MoralisGetTokenPrice ''mainnet'' ''A''] \<rparr>)"
  by (simp add: async_defs scenario_defs for_tokenResp.simps Let_def)

lemma scenario_wallet_answer_B:
  "answer_for_record scenario_sdk scenario_moralis ''api-key'' scenario_connection
     (PublicKey ''wallet'') None
     [scenario_record ''acc1'' [1, 232, 3], scenario_record ''acc2'' [2, 244, 1]] 1 scenario_world =
   Some (Inl (Error ''timeout''))"
  by (simp add: answer_for_record_def world_before_record_def oracle_answer_def
        async_defs scenario_defs for_tokenResp.simps Let_def)

lemma scenario_wallet_answer_A:
  "answer_for_record scenario_sdk scenario_moralis ''api-key'' scenario_connection
     (PublicKey ''wallet'') None
     [scenario_record ''acc1'' [1, 232, 3], scenario_record ''acc2'' [2, 244, 1]] 0 scenario_world =
   Some (priced (Finite (1 / 20)))"
  by (simp add: answer_for_record_def world_before_record_def oracle_answer_def
        async_defs scenario_defs for_tokenResp.simps Let_def)

lemma scenario_dust_answer_Z:
  "answer_for_record scenario_sdk scenario_moralis ''api-key'' scenario_connection
     (PublicKey ''dust'') None
     [scenario_record ''acc3'' [3, 7], scenario_record ''acc4'' [4, 9]] 0 scenario_world =
   Some (priced (Finite 0))"
  by (simp add: answer_for_record_def world_before_record_def oracle_answer_def
        async_defs scenario_defs for_tokenResp.simps Let_def)

lemma scenario_dust_answer_N:
  "answer_for_record scenario_sdk scenario_moralis ''api-key'' scenario_connection
     (PublicKey ''dust'') None
     [scenario_record ''acc3'' [3, 7], scenario_record ''acc4'' [4, 9]] 1 scenario_world =
   Some (priced (Finite (- 1)))"
  by (simp add: answer_for_record_def world_before_record_def oracle_answer_def
        async_defs scenario_defs for_tokenResp.simps Let_def)

lemma scenario_fetch_Z:
  "oracle_answer scenario_moralis ''api-key'' ''Z'' (oracle_state scenario_world) = priced (Finite 0)
   \<and> fst (fetchCoinPrice scenario_moralis ''Z'' ''api-key'' scenario_world) = Inr None"
  by (simp add: oracle_answer_def async_defs scenario_defs Let_def)

lemma scenario_fetch_A:
  "oracle_answer scenario_moralis ''api-key'' ''A'' (oracle_state scenario_world) = priced (Finite (1 / 20))
   \<and> fst (fetchCoinPrice scenario_moralis ''A'' ''api-key'' scenario_world) = Inr (Some (Finite (1 / 20)))"
  by (simp add: oracle_answer_def async_defs scenario_defs Let_def)

lemma scenario_fetch_B:
  "oracle_answer scenario_moralis ''api-key'' ''B'' (oracle_state scenario_world) = Inl (Error ''timeout'')
   \<and> fst (fetchCoinPrice scenario_moralis ''B'' ''api-key'' scenario_world) = Inr None"
  by (simp add: oracle_answer_def async_defs scenario_defs Let_def)

text \<open>
  C1, as stated, fails: the ledger answers with two records, the decoder throws on the
  second, and \<open>getTokenAccounts\<close> rejects with the decoder's exception instead of
  returning two holdings.
\<close>

theorem undecodable_record_counterexample:
  "getTokenAccountsByOwner scenario_connection (PublicKey ''torn'')
      (TOKEN_PROGRAM_ID scenario_sdk) None =
     Inr [scenario_record ''acc5'' [1, 232, 3], scenario_record ''acc6'' []]
   \<and> length [scenario_record ''acc5'' [1, 232, 3], scenario_record ''acc6'' []] = 2
   \<and> fst (getTokenAccounts scenario_sdk scenario_moralis ''api-key'' scenario_connection
            (PublicKey ''torn'') None scenario_world) =
      Inl (Error ''RangeError: Trying to access beyond buffer length'')"
  by (simp add: scenario_torn_ledger scenario_torn_run)

text \<open>
  C1, amended. When the ledger answers with \<open>k\<close> records that all decode,
  \<open>getTokenAccounts\<close> returns, whatever the oracle does, a list of exactly \<open>k\<close> holdings,
  one per record and in the order of the records: the holding of index \<open>i\<close> has the
  address, the owning program, the decoded account and the amount of the record of index
  \<open>i\<close>; every list it returns is of this kind. When a record does not decode, it
  rejects with the decoder's exception for the first such record.
\<close>

theorem one_holding_per_record:
  assumes "getTokenAccountsByOwner c ownr (TOKEN_PROGRAM_ID k) commitment = Inr recs"
  shows "(first_decode_error k recs = None \<longrightarrow>
            (\<exists>hs w'. getTokenAccounts k M key c ownr commitment w = (Inr hs, w')))
       \<and> (fst (getTokenAccounts k M key c ownr commitment w) = Inr hs \<longrightarrow>
            length hs = length recs
          \<and> map TokenAccountWithAmountAndPrice.pubkey hs = map KeyedAccount.pubkey recs
          \<and> map programId hs = map (\<lambda>r. owner (account r)) recs
          \<and> map (\<lambda>h. Inr (accountInfo h)) hs =
              map (\<lambda>r. SPL_ACCOUNT_LAYOUT_decode k (data (account r))) recs
          \<and> map amount hs = map (\<lambda>h. SplAccount.amount (accountInfo h)) hs)
       \<and> (first_decode_error k recs = Some e \<longrightarrow>
            fst (getTokenAccounts k M key c ownr commitment w) = Inl e)"
proof (intro conjI impI)
  assume "first_decode_error k recs = None"
  then show "\<exists>hs w'. getTokenAccounts k M key c ownr commitment w = (Inr hs, w')"
    by (rule getTokenAccounts_resolves [OF assms])
next
  assume r: "fst (getTokenAccounts k M key c ownr commitment w) = Inr hs"
  note f = getTokenAccounts_fields [OF assms r]
  from f show "length hs = length recs" by blast
  from f show "map TokenAccountWithAmountAndPrice.pubkey hs = map KeyedAccount.pubkey recs"
    by blast
  from f show "map programId hs = map (\<lambda>r. owner (account r)) recs" by blast
  from f show "map (\<lambda>h. Inr (accountInfo h)) hs =
              map (\<lambda>r. SPL_ACCOUNT_LAYOUT_decode k (data (account r))) recs"
    by blast
  from f show "map amount hs = map (\<lambda>h. SplAccount.amount (accountInfo h)) hs" by blast
next
  assume "first_decode_error k recs = Some e"
  with assms show "fst (getTokenAccounts k M key c ownr commitment w) = Inl e"
    by (simp add: getTokenAccounts_rejects_iff)
qed

theorem one_holding_per_record_witness:
  "first_decode_error scenario_sdk
     [scenario_record ''acc1'' [1, 232, 3], scenario_record ''acc2'' [2, 244, 1]] = None
   \<and> (\<exists>hs w'. getTokenAccounts scenario_sdk scenario_moralis ''api-key'' scenario_connection
                 (PublicKey ''wallet'') None scenario_world = (Inr hs, w')
          \<and> length hs = 2
          \<and> map TokenAccountWithAmountAndPrice.pubkey hs = [PublicKey ''acc1'', PublicKey ''acc2'']
          \<and> map programId hs = [PublicKey ''token-program'', PublicKey ''token-program''])
   \<and> first_decode_error scenario_sdk
       [scenario_record ''acc5'' [1, 232, 3], scenario_record ''acc6'' []] =
     Some (Error ''RangeError: Trying to access beyond buffer length'')
   \<and> fst (getTokenAccounts scenario_sdk scenario_moralis ''api-key'' scenario_connection
            (PublicKey ''torn'') None scenario_world) =
     Inl (Error ''RangeError: Trying to access beyond buffer length'')"
proof -
  note a = one_holding_per_record [OF scenario_wallet_ledger,
      where M = scenario_moralis and key = "''api-key''" and w = scenario_world]
  from a scenario_wallet_decodes
  obtain hs w' where r: "getTokenAccounts scenario_sdk scenario_moralis ''api-key''
      scenario_connection (PublicKey ''wallet'') None scenario_world = (Inr hs, w')"
    by blast
  then have "fst (getTokenAccounts scenario_sdk scenario_moralis ''api-key''
      scenario_connection (PublicKey ''wallet'') None scenario_world) = Inr hs"
    by simp
  with a [where hs = hs]
  have "length hs = 2
      \<and> map TokenAccountWithAmountAndPrice.pubkey hs = [PublicKey ''acc1'', PublicKey ''acc2'']
      \<and> map programId hs = [PublicKey ''token-program'', PublicKey ''token-program'']"
    by (simp add: scenario_record_def)
  with r have "\<exists>hs w'. getTokenAccounts scenario_sdk scenario_moralis ''api-key'' scenario_connection
                 (PublicKey ''wallet'') None scenario_world = (Inr hs, w')
          \<and> length hs = 2
          \<and> map TokenAccountWithAmountAndPrice.pubkey hs = [PublicKey ''acc1'', PublicKey ''acc2'']
          \<and> map programId hs = [PublicKey ''token-program'', PublicKey ''token-program'']"
    by (intro exI [where x = hs] exI [where x = w']) simp
  moreover from one_holding_per_record [OF scenario_torn_ledger,
      where M = scenario_moralis and key = "''api-key''" and w = scenario_world
        and e = "Error ''RangeError: Trying to access beyond buffer length''"]
    scenario_torn_decode_error
  have "fst (getTokenAccounts scenario_sdk scenario_moralis ''api-key'' scenario_connection
            (PublicKey ''torn'') None scenario_world) =
     Inl (Error ''RangeError: Trying to access beyond buffer length'')"
    by simp
  ultimately show ?thesis
    using scenario_wallet_decodes scenario_torn_decode_error by simp
qed

text \<open>
  C2, as stated, fails: the ledger answers and the oracle answers for the first record,
  yet \<open>getTokenAccounts\<close> rejects, with the exception that the decoder throws on the
  second record.
\<close>

theorem decoder_exception_counterexample:
  "(case getTokenAccountsByOwner scenario_connection (PublicKey ''torn'')
           (TOKEN_PROGRAM_ID scenario_sdk) None of
      Inl e \<Rightarrow> False
    | Inr recs \<Rightarrow> True)
   \<and> getTokenAccounts scenario_sdk scenario_moralis ''api-key'' scenario_connection
       (PublicKey ''torn'') None scenario_world =
     (Inl (Error ''RangeError: Trying to access beyond buffer length''),
      \<lparr> oracle_state = 1,
        trace =
          [LedgerGetTokenAccountsByOwner (PublicKey ''torn'') (PublicKey ''token-program'') None,
           ConsoleLog [''Fetching real-time coin price:'', ''A'', ''api-key''],
           MoralisStart ''api-key'',
           MoralisGetTokenPrice ''mainnet'' ''A''] \<rparr>)"
  by (simp add: scenario_torn_ledger scenario_torn_run)

text \<open>
  C2, amended. \<open>fetchCoinPrice\<close> always returns and never rejects; when a request to the
  oracle rejects, it returns \<open>undefined\<close>. \<open>getTokenAccounts\<close> rejects with an exception
  exactly when the request to the ledger rejects with it or the decoder throws it on the
  first record that does not decode; so it returns a list whenever the ledger answers
  and every record decodes, whatever the oracle does. In every list it returns, the
  holding of a record for which the oracle rejects has no price.
\<close>

theorem oracle_failures_absorbed:
  "(\<exists>p w'. fetchCoinPrice M a key w = (Inr p, w'))
   \<and> (oracle_answer M key a (oracle_state w) = Inl e1 \<longrightarrow>
        fst (fetchCoinPrice M a key w) = Inr None)
   \<and> (fst (getTokenAccounts k M key c ownr commitment w) = Inl e2 \<longleftrightarrow>
        getTokenAccountsByOwner c ownr (TOKEN_PROGRAM_ID k) commitment = Inl e2
      \<or> (\<exists>recs. getTokenAccountsByOwner c ownr (TOKEN_PROGRAM_ID k) commitment = Inr recs
            \<and> first_decode_error k recs = Some e2))
   \<and> (getTokenAccountsByOwner c ownr (TOKEN_PROGRAM_ID k) commitment = Inr recs
        \<and> first_decode_error k recs = None \<longrightarrow>
        (\<exists>hs w'. getTokenAccounts k M key c ownr commitment w = (Inr hs, w')))
   \<and> (getTokenAccountsByOwner c ownr (TOKEN_PROGRAM_ID k) commitment = Inr recs
        \<and> fst (getTokenAccounts k M key c ownr commitment w) = Inr hs
        \<and> i < length recs
        \<and> answer_for_record k M key c ownr commitment recs i w = Some (Inl e3) \<longrightarrow>
        price (hs ! i) = None)"
proof (intro conjI impI)
  show "\<exists>p w'. fetchCoinPrice M a key w = (Inr p, w')"
    by (rule fetchCoinPrice_resolves)
next
  assume "oracle_answer M key a (oracle_state w) = Inl e1"
  then show "fst (fetchCoinPrice M a key w) = Inr None"
    by (simp add: fetchCoinPrice_fst)
next
  show "fst (getTokenAccounts k M key c ownr commitment w) = Inl e2 \<longleftrightarrow>
        getTokenAccountsByOwner c ownr (TOKEN_PROGRAM_ID k) commitment = Inl e2
      \<or> (\<exists>recs. getTokenAccountsByOwner c ownr (TOKEN_PROGRAM_ID k) commitment = Inr recs
            \<and> first_decode_error k recs = Some e2)"
    by (rule getTokenAccounts_rejects_iff)
next
  assume "getTokenAccountsByOwner c ownr (TOKEN_PROGRAM_ID k) commitment = Inr recs
        \<and> first_decode_error k recs = None"
  then show "\<exists>hs w'. getTokenAccounts k M key c ownr commitment w = (Inr hs, w')"
    using getTokenAccounts_resolves by blast
next
  assume a: "getTokenAccountsByOwner c ownr (TOKEN_PROGRAM_ID k) commitment = Inr recs
        \<and> fst (getTokenAccounts k M key c ownr commitment w) = Inr hs
        \<and> i < length recs
        \<and> answer_for_record k M key c ownr commitment recs i w = Some (Inl e3)"
  then have l: "getTokenAccountsByOwner c ownr (TOKEN_PROGRAM_ID k) commitment = Inr recs"
    and r: "fst (getTokenAccounts k M key c ownr commitment w) = Inr hs"
    and i: "i < length recs"
    by simp_all
  from getTokenAccounts_price [OF l r i] a show "price (hs ! i) = None"
    by auto
qed

theorem oracle_failures_absorbed_witness:
  "oracle_answer scenario_moralis ''api-key'' ''B'' (oracle_state scenario_world) = Inl (Error ''timeout'')
   \<and> fst (fetchCoinPrice scenario_moralis ''B'' ''api-key'' scenario_world) = Inr None
   \<and> answer_for_record scenario_sdk scenario_moralis ''api-key'' scenario_connection
        (PublicKey ''wallet'') None
        [scenario_record ''acc1'' [1, 232, 3], scenario_record ''acc2'' [2, 244, 1]] 1 scenario_world =
      Some (Inl (Error ''timeout''))
   \<and> (\<exists>hs w'. getTokenAccounts scenario_sdk scenario_moralis ''api-key'' scenario_connection
                 (PublicKey ''wallet'') None scenario_world = (Inr hs, w')
          \<and> price (hs ! 1) = None)
   \<and> getTokenAccountsByOwner scenario_connection (PublicKey ''nobody'')
        (TOKEN_PROGRAM_ID scenario_sdk) None =
      Inl (Error ''failed to get token accounts owned by account'')
   \<and> fst (getTokenAccounts scenario_sdk scenario_moralis ''api-key'' scenario_connection
            (PublicKey ''nobody'') None scenario_world) =
      Inl (Error ''failed to get token accounts owned by account'')"
proof -
  let ?recs = "[scenario_record ''acc1'' [1, 232, 3], scenario_record ''acc2'' [2, 244, 1]]"
  have n: "getTokenAccountsByOwner scenario_connection (PublicKey ''nobody'')
        (TOKEN_PROGRAM_ID scenario_sdk) None =
      Inl (Error ''failed to get token accounts owned by account'')"
    by (simp add: scenario_defs)
  note a = oracle_failures_absorbed [where M = scenario_moralis and a = "''B''"
      and key = "''api-key''" and w = scenario_world and k = scenario_sdk
      and c = scenario_connection and ownr = "PublicKey ''wallet''" and commitment = None
      and recs = ?recs and i = 1 and ?e1.0 = "Error ''timeout''" and ?e3.0 = "Error ''timeout''"]
  from a scenario_wallet_ledger scenario_wallet_decodes
  obtain hs w' where r: "getTokenAccounts scenario_sdk scenario_moralis ''api-key''
      scenario_connection (PublicKey ''wallet'') None scenario_world = (Inr hs, w')"
    by blast
  then have "fst (getTokenAccounts scenario_sdk scenario_moralis ''api-key''
      scenario_connection (PublicKey ''wallet'') None scenario_world) = Inr hs"
    by simp
  with a [where hs = hs] scenario_wallet_ledger scenario_wallet_answer_B
  have "price (hs ! 1) = None"
    by simp
  with r have "\<exists>hs w'. getTokenAccounts scenario_sdk scenario_moralis ''api-key'' scenario_connection
                 (PublicKey ''wallet'') None scenario_world = (Inr hs, w')
          \<and> price (hs ! 1) = None"
    by (intro exI [where x = hs] exI [where x = w']) simp
  moreover from oracle_failures_absorbed [where M = scenario_moralis and key = "''api-key''"
      and w = scenario_world and k = scenario_sdk and c = scenario_connection
      and ownr = "PublicKey ''nobody''" and commitment = None
      and ?e2.0 = "Error ''failed to get token accounts owned by account''"] n
  have "fst (getTokenAccounts scenario_sdk scenario_moralis ''api-key'' scenario_connection
            (PublicKey ''nobody'') None scenario_world) =
      Inl (Error ''failed to get token accounts owned by account'')"
    by simp
  ultimately show ?thesis
    using n scenario_fetch_B scenario_wallet_answer_B by simp
qed

text \<open>
  C3, as stated, fails: the oracle's price -1 is attached to the holding, and it is
  neither strictly positive nor absent.
\<close>

theorem negative_price_counterexample:
  "map_sum id (map price)
     (fst (getTokenAccounts scenario_sdk scenario_moralis ''api-key'' scenario_connection
             (PublicKey ''dust'') None scenario_world)) =
     Inr [None, Some (Finite (- 1))]
   \<and> \<not> positive (Finite (- 1))
   \<and> Some (Finite (- 1)) \<noteq> None"
  by (simp add: scenario_dust_run)

text \<open>
  C3, amended. In every list of holdings that \<open>getTokenAccounts\<close> returns no price is
  zero: the price of a holding is absent, or it is the \<open>usdPrice\<close> of the oracle's
  response for the record; and whenever that \<open>usdPrice\<close> is a Number other than zero,
  negative ones included, the holding carries it unchanged.
\<close>

theorem zero_price_never_attached:
  assumes "getTokenAccountsByOwner c ownr (TOKEN_PROGRAM_ID k) commitment = Inr recs"
    and "fst (getTokenAccounts k M key c ownr commitment w) = Inr hs"
  shows "(\<forall>h \<in> set hs. price h \<noteq> Some (Finite 0))
       \<and> (\<forall>i < length recs.
            price (hs ! i) = None
          \<or> (\<exists>response r. answer_for_record k M key c ownr commitment recs i w = Some (Inr response)
                \<and> raw response = Some r \<and> usdPrice r = price (hs ! i)))
       \<and> (\<forall>i < length recs. \<forall>response r p.
            answer_for_record k M key c ownr commitment recs i w = Some (Inr response)
              \<and> raw response = Some r \<and> usdPrice r = Some p \<and> p \<noteq> Finite 0 \<longrightarrow>
            price (hs ! i) = Some p)"
proof -
  have len: "length hs = length recs"
    using getTokenAccounts_fields [OF assms] by blast
  have p: "price (hs ! i) \<noteq> Some (Finite 0)
       \<and> (price (hs ! i) = None
          \<or> (\<exists>response r. answer_for_record k M key c ownr commitment recs i w = Some (Inr response)
                \<and> raw response = Some r \<and> usdPrice r = price (hs ! i)))
       \<and> (\<forall>response r p.
            answer_for_record k M key c ownr commitment recs i w = Some (Inr response)
              \<and> raw response = Some r \<and> usdPrice r = Some p \<and> p \<noteq> Finite 0 \<longrightarrow>
            price (hs ! i) = Some p)"
    if "i < length recs" for i
  proof -
    from getTokenAccounts_price [OF assms that]
    obtain a where a: "answer_for_record k M key c ownr commitment recs i w = Some a"
      and pr: "price (hs ! i) =
           (case a of
              Inl e \<Rightarrow> None
            | Inr response \<Rightarrow>
                (case raw response of
                   None \<Rightarrow> None
                 | Some r \<Rightarrow> if usdPrice r = Some (Finite 0) then None else usdPrice r))"
      by blast
    show ?thesis
      unfolding a pr
      by (cases a) (auto split: option.splits)
  qed
  show ?thesis
  proof (intro conjI ballI allI impI)
    fix h assume "h \<in> set hs"
    then obtain i where "i < length hs" "h = hs ! i"
      by (auto simp: in_set_conv_nth)
    with p [of i] len show "price h \<noteq> Some (Finite 0)"
      by simp
  next
    fix i assume "i < length recs"
    with p [of i] show "price (hs ! i) = None
          \<or> (\<exists>response r. answer_for_record k M key c ownr commitment recs i w = Some (Inr response)
                \<and> raw response = Some r \<and> usdPrice r = price (hs ! i))"
      by simp
  next
    fix i response r q
    assume "i < length recs"
      and "answer_for_record k M key c ownr commitment recs i w = Some (Inr response)
              \<and> raw response = Some r \<and> usdPrice r = Some q \<and> q \<noteq> Finite 0"
    with p [of i] show "price (hs ! i) = Some q"
      by blast
  qed
qed

theorem zero_price_never_attached_witness:
  "(\<exists>hs. fst (getTokenAccounts scenario_sdk scenario_moralis ''api-key'' scenario_connection
               (PublicKey ''dust'') None scenario_world) = Inr hs
        \<and> price (hs ! 0) \<noteq> Some (Finite 0)
        \<and> price (hs ! 1) = Some (Finite (- 1)))
   \<and> answer_for_record scenario_sdk scenario_moralis ''api-key'' scenario_connection
        (PublicKey ''dust'') None
        [scenario_record ''acc3'' [3, 7], scenario_record ''acc4'' [4, 9]] 1 scenario_world =
      Some (Inr \<lparr> raw = Some \<lparr> usdPrice = Some (Finite (- 1)) \<rparr> \<rparr>)
   \<and> Finite (- 1) \<noteq> Finite 0"
proof -
  let ?recs = "[scenario_record ''acc3'' [3, 7], scenario_record ''acc4'' [4, 9]]"
  obtain hs where r: "fst (getTokenAccounts scenario_sdk scenario_moralis ''api-key''
      scenario_connection (PublicKey ''dust'') None scenario_world) = Inr hs"
    by (simp add: scenario_dust_run)
  note t = zero_price_never_attached [OF scenario_dust_ledger r]
  have n: "answer_for_record scenario_sdk scenario_moralis ''api-key'' scenario_connection
        (PublicKey ''dust'') None ?recs 1 scenario_world =
      Some (Inr \<lparr> raw = Some \<lparr> usdPrice = Some (Finite (- 1)) \<rparr> \<rparr>)"
    using scenario_dust_answer_N by (simp add: priced_def)
  have len: "length hs = 2"
    using r by (auto simp: scenario_dust_run)
  from t len have z: "price (hs ! 0) \<noteq> Some (Finite 0)"
    by (simp add: nth_mem)
  from t have t3: "\<forall>i < length ?recs. \<forall>response r p.
            answer_for_record scenario_sdk scenario_moralis ''api-key'' scenario_connection
                (PublicKey ''dust'') None ?recs i scenario_world = Some (Inr response)
              \<and> raw response = Some r \<and> usdPrice r = Some p \<and> p \<noteq> Finite 0 \<longrightarrow>
            price (hs ! i) = Some p"
    by blast
  from t3 [rule_format, of 1 "\<lparr> raw = Some \<lparr> usdPrice = Some (Finite (- 1)) \<rparr> \<rparr>"
      "\<lparr> usdPrice = Some (Finite (- 1)) \<rparr>" "Finite (- 1)"] n
  have "price (hs ! 1) = Some (Finite (- 1))"
    by simp
  with r z n show ?thesis
    by (intro conjI exI [where x = hs]) simp_all
qed

text \<open>
  C4. When the oracle's response has \<open>usdPrice\<close> exactly zero, \<open>fetchCoinPrice\<close> returns
  \<open>undefined\<close>, not 0, and in every list that \<open>getTokenAccounts\<close> returns the holding of a
  record with such a response has no price; it returns such a list whenever every
  record decodes.
\<close>

theorem zero_price_is_absent:
  "(oracle_answer M key a (oracle_state w) = Inr response \<and> raw response = Some r
      \<and> usdPrice r = Some (Finite 0) \<longrightarrow>
        fst (fetchCoinPrice M a key w) = Inr None)
   \<and> (getTokenAccountsByOwner c ownr (TOKEN_PROGRAM_ID k) commitment = Inr recs
        \<and> fst (getTokenAccounts k M key c ownr commitment w) = Inr hs
        \<and> i < length recs
        \<and> answer_for_record k M key c ownr commitment recs i w = Some (Inr response')
        \<and> raw response' = Some r' \<and> usdPrice r' = Some (Finite 0) \<longrightarrow>
        price (hs ! i) = None)
   \<and> (getTokenAccountsByOwner c ownr (TOKEN_PROGRAM_ID k) commitment = Inr recs
        \<and> first_decode_error k recs = None
        \<and> i < length recs
        \<and> answer_for_record k M key c ownr commitment recs i w = Some (Inr response')
        \<and> raw response' = Some r' \<and> usdPrice r' = Some (Finite 0) \<longrightarrow>
        (\<exists>hs w'. getTokenAccounts k M key c ownr commitment w = (Inr hs, w')
           \<and> price (hs ! i) = None))"
proof (intro conjI impI)
  assume "oracle_answer M key a (oracle_state w) = Inr response \<and> raw response = Some r
      \<and> usdPrice r = Some (Finite 0)"
  then show "fst (fetchCoinPrice M a key w) = Inr None"
    by (simp add: fetchCoinPrice_fst)
next
  assume a: "getTokenAccountsByOwner c ownr (TOKEN_PROGRAM_ID k) commitment = Inr recs
        \<and> fst (getTokenAccounts k M key c ownr commitment w) = Inr hs
        \<and> i < length recs
        \<and> answer_for_record k M key c ownr commitment recs i w = Some (Inr response')
        \<and> raw response' = Some r' \<and> usdPrice r' = Some (Finite 0)"
  then have l: "getTokenAccountsByOwner c ownr (TOKEN_PROGRAM_ID k) commitment = Inr recs"
    and r: "fst (getTokenAccounts k M key c ownr commitment w) = Inr hs"
    and i: "i < length recs"
    by simp_all
  from getTokenAccounts_price [OF l r i] a show "price (hs ! i) = None"
    by auto
next
  assume a: "getTokenAccountsByOwner c ownr (TOKEN_PROGRAM_ID k) commitment = Inr recs
        \<and> first_decode_error k recs = None
        \<and> i < length recs
        \<and> answer_for_record k M key c ownr commitment recs i w = Some (Inr response')
        \<and> raw response' = Some r' \<and> usdPrice r' = Some (Finite 0)"
  then have l: "getTokenAccountsByOwner c ownr (TOKEN_PROGRAM_ID k) commitment = Inr recs"
    and d: "first_decode_error k recs = None"
    and i: "i < length recs"
    by simp_all
  obtain hs' w' where run: "getTokenAccounts k M key c ownr commitment w = (Inr hs', w')"
    using getTokenAccounts_resolves [OF l d] by blast
  then have r: "fst (getTokenAccounts k M key c ownr commitment w) = Inr hs'"
    by simp
  from getTokenAccounts_price [OF l r i] a have "price (hs' ! i) = None"
    by auto
  with run show "\<exists>hs w'. getTokenAccounts k M key c ownr commitment w = (Inr hs, w')
           \<and> price (hs ! i) = None"
    by (intro exI [where x = hs'] exI [where x = w']) simp
qed

theorem zero_price_is_absent_witness:
  "oracle_answer scenario_moralis ''api-key'' ''Z'' (oracle_state scenario_world) = priced (Finite 0)
   \<and> fst (fetchCoinPrice scenario_moralis ''Z'' ''api-key'' scenario_world) = Inr None
   \<and> answer_for_record scenario_sdk scenario_moralis ''api-key'' scenario_connection
        (PublicKey ''dust'') None
        [scenario_record ''acc3'' [3, 7], scenario_record ''acc4'' [4, 9]] 0 scenario_world =
      Some (priced (Finite 0))
   \<and> first_decode_error scenario_sdk
        [scenario_record ''acc3'' [3, 7], scenario_record ''acc4'' [4, 9]] = None
   \<and> (\<exists>hs w'. getTokenAccounts scenario_sdk scenario_moralis ''api-key'' scenario_connection
                 (PublicKey ''dust'') None scenario_world = (Inr hs, w')
          \<and> price (hs ! 0) = None)"
  using zero_price_is_absent [where M = scenario_moralis and key = "''api-key''" and a = "''Z''"
      and w = scenario_world
      and response = "\<lparr> raw = Some \<lparr> usdPrice = Some (Finite 0) \<rparr> \<rparr>"
      and r = "\<lparr> usdPrice = Some (Finite 0) \<rparr>"
      and c = scenario_connection and ownr = "PublicKey ''dust''" and k = scenario_sdk
      and commitment = None
      and recs = "[scenario_record ''acc3'' [3, 7], scenario_record ''acc4'' [4, 9]]" and i = 0
      and response' = "\<lparr> raw = Some \<lparr> usdPrice = Some (Finite 0) \<rparr> \<rparr>"
      and r' = "\<lparr> usdPrice = Some (Finite 0) \<rparr>"]
    scenario_fetch_Z scenario_dust_ledger scenario_dust_answer_Z scenario_dust_decodes
  by (simp add: priced_def)

text \<open>
  C5. When the oracle's response has a positive \<open>usdPrice\<close> \<open>p\<close>, \<open>fetchCoinPrice\<close>
  returns \<open>p\<close> itself, and in every list that \<open>getTokenAccounts\<close> returns the holding of a
  record with such a response has price \<open>p\<close>; it returns such a list whenever every
  record decodes.
\<close>

theorem positive_price_is_attached:
  "(oracle_answer M key a (oracle_state w) = Inr response \<and> raw response = Some r
      \<and> usdPrice r = Some p \<and> positive p \<longrightarrow>
        fst (fetchCoinPrice M a key w) = Inr (Some p))
   \<and> (getTokenAccountsByOwner c ownr (TOKEN_PROGRAM_ID k) commitment = Inr recs
        \<and> fst (getTokenAccounts k M key c ownr commitment w) = Inr hs
        \<and> i < length recs
        \<and> answer_for_record k M key c ownr commitment recs i w = Some (Inr response')
        \<and> raw response' = Some r' \<and> usdPrice r' = Some p' \<and> positive p' \<longrightarrow>
        price (hs ! i) = Some p')
   \<and> (getTokenAccountsByOwner c ownr (TOKEN_PROGRAM_ID k) commitment = Inr recs
        \<and> first_decode_error k recs = None
        \<and> i < length recs
        \<and> answer_for_record k M key c ownr commitment recs i w = Some (Inr response')
        \<and> raw response' = Some r' \<and> usdPrice r' = Some p' \<and> positive p' \<longrightarrow>
        (\<exists>hs w'. getTokenAccounts k M key c ownr commitment w = (Inr hs, w')
           \<and> price (hs ! i) = Some p'))"
proof (intro conjI impI)
  assume a: "oracle_answer M key a (oracle_state w) = Inr response \<and> raw response = Some r
      \<and> usdPrice r = Some p \<and> positive p"
  then have "p \<noteq> Finite 0"
    by auto
  with a show "fst (fetchCoinPrice M a key w) = Inr (Some p)"
    by (simp add: fetchCoinPrice_fst)
next
  assume a: "getTokenAccountsByOwner c ownr (TOKEN_PROGRAM_ID k) commitment = Inr recs
        \<and> fst (getTokenAccounts k M key c ownr commitment w) = Inr hs
        \<and> i < length recs
        \<and> answer_for_record k M key c ownr commitment recs i w = Some (Inr response')
        \<and> raw response' = Some r' \<and> usdPrice r' = Some p' \<and> positive p'"
  then have l: "getTokenAccountsByOwner c ownr (TOKEN_PROGRAM_ID k) commitment = Inr recs"
    and r: "fst (getTokenAccounts k M key c ownr commitment w) = Inr hs"
    and i: "i < length recs"
    by simp_all
  from a have nz: "p' \<noteq> Finite 0"
    by auto
  from getTokenAccounts_price [OF l r i] a nz show "price (hs ! i) = Some p'"
    by auto
next
  assume a: "getTokenAccountsByOwner c ownr (TOKEN_PROGRAM_ID k) commitment = Inr recs
        \<and> first_decode_error k recs = None
        \<and> i < length recs
        \<and> answer_for_record k M key c ownr commitment recs i w = Some (Inr response')
        \<and> raw response' = Some r' \<and> usdPrice r' = Some p' \<and> positive p'"
  then have l: "getTokenAccountsByOwner c ownr (TOKEN_PROGRAM_ID k) commitment = Inr recs"
    and d: "first_decode_error k recs = None"
    and i: "i < length recs"
    by simp_all
  from a have nz: "p' \<noteq> Finite 0"
    by auto
  obtain hs' w' where run: "getTokenAccounts k M key c ownr commitment w = (Inr hs', w')"
    using getTokenAccounts_resolves [OF l d] by blast
  then have r: "fst (getTokenAccounts k M key c ownr commitment w) = Inr hs'"
    by simp
  from getTokenAccounts_price [OF l r i] a nz have "price (hs' ! i) = Some p'"
    by auto
  with run show "\<exists>hs w'. getTokenAccounts k M key c ownr commitment w = (Inr hs, w')
           \<and> price (hs ! i) = Some p'"
    by (intro exI [where x = hs'] exI [where x = w']) simp
qed

theorem positive_price_is_attached_witness:
  "oracle_answer scenario_moralis ''api-key'' ''A'' (oracle_state scenario_world) = priced (Finite (1 / 20))
   \<and> positive (Finite (1 / 20))
   \<and> fst (fetchCoinPrice scenario_moralis ''A'' ''api-key'' scenario_world) = Inr (Some (Finite (1 / 20)))
   \<and> answer_for_record scenario_sdk scenario_moralis ''api-key'' scenario_connection
        (PublicKey ''wallet'') None
        [scenario_record ''acc1'' [1, 232, 3], scenario_record ''acc2'' [2, 244, 1]] 0 scenario_world =
      Some (priced (Finite (1 / 20)))
   \<and> first_decode_error scenario_sdk
        [scenario_record ''acc1'' [1, 232, 3], scenario_record ''acc2'' [2, 244, 1]] = None
   \<and> (\<exists>hs w'. getTokenAccounts scenario_sdk scenario_moralis ''api-key'' scenario_connection
                 (PublicKey ''wallet'') None scenario_world = (Inr hs, w')
          \<and> price (hs ! 0) = Some (Finite (1 / 20)))"
  using positive_price_is_attached [where M = scenario_moralis and key = "''api-key''"
      and a = "''A''" and w = scenario_world
      and response = "\<lparr> raw = Some \<lparr> usdPrice = Some (Finite (1 / 20)) \<rparr> \<rparr>"
      and r = "\<lparr> usdPrice = Some (Finite (1 / 20)) \<rparr>" and p = "Finite (1 / 20)"
      and c = scenario_connection and ownr = "PublicKey ''wallet''" and k = scenario_sdk
      and commitment = None
      and recs = "[scenario_record ''acc1'' [1, 232, 3], scenario_record ''acc2'' [2, 244, 1]]"
      and i = 0
      and response' = "\<lparr> raw = Some \<lparr> usdPrice = Some (Finite (1 / 20)) \<rparr> \<rparr>"
      and r' = "\<lparr> usdPrice = Some (Finite (1 / 20)) \<rparr>" and p' = "Finite (1 / 20)"]
    scenario_fetch_A scenario_wallet_ledger scenario_wallet_answer_A scenario_wallet_decodes
  by (simp add: priced_def)

text \<open>
  C8. When the ledger answers with no record, \<open>getTokenAccounts\<close> returns the empty list;
  the request to the ledger is the only event it adds to the trace, so it makes no
  request to the oracle, and the state of the oracle is unchanged.
\<close>

theorem no_records_no_oracle_calls:
  assumes "getTokenAccountsByOwner c ownr (TOKEN_PROGRAM_ID k) commitment = Inr []"
  shows "getTokenAccounts k M key c ownr commitment w =
           (Inr [],
            w\<lparr>trace := trace w @ [LedgerGetTokenAccountsByOwner ownr (TOKEN_PROGRAM_ID k) commitment]\<rparr>)
       \<and> filter is_oracle_call (trace (snd (getTokenAccounts k M key c ownr commitment w))) =
           filter is_oracle_call (trace w)
       \<and> oracle_state (snd (getTokenAccounts k M key c ownr commitment w)) = oracle_state w"
  by (simp add: getTokenAccounts_run assms for_tokenResp.simps resolve_def)

theorem no_records_no_oracle_calls_witness:
  "getTokenAccountsByOwner scenario_connection (PublicKey ''new'')
      (TOKEN_PROGRAM_ID scenario_sdk) None = Inr []
   \<and> getTokenAccounts scenario_sdk scenario_moralis ''api-key'' scenario_connection
       (PublicKey ''new'') None scenario_world =
     (Inr [],
      \<lparr> oracle_state = 0,
        trace = [LedgerGetTokenAccountsByOwner (PublicKey ''new'') (PublicKey ''token-program'') None] \<rparr>)"
proof -
  have l: "getTokenAccountsByOwner scenario_connection (PublicKey ''new'')
      (TOKEN_PROGRAM_ID scenario_sdk) None = Inr []"
    by (simp add: scenario_defs)
  from no_records_no_oracle_calls [OF l, of scenario_moralis "''api-key''" scenario_world] l
  show ?thesis
    by (simp add: scenario_sdk_def scenario_world_def)
qed

lemma andThen_Inr_iff:
  "andThen m f = Inr y \<longleftrightarrow> (\<exists>x. m = Inr x \<and> f x = Inr y)"
  by (cases m) (simp_all add: andThen_def)

lemma toNumber_Inr_iff: "toNumber n = Inr m \<longleftrightarrow> (\<bar>n\<bar> < 2 ^ 53 \<and> m = n)"
  by (auto simp: toNumber_def)

lemma scenario_createPoolKeys:
  "createPoolKeys scenario_sdk (PublicKey ''pool'') scenario_state scenario_market =
     Inr scenario_keys"
  by (simp add: createPoolKeys_def andThen_def toNumber_def RAYDIUM_LIQUIDITY_PROGRAM_ID_V4_def
        scenario_sdk_def scenario_state_def scenario_market_def scenario_keys_def)

text \<open>
  C7. \<open>createPoolKeys\<close> is a function of its arguments and of the SDK alone. In the keys
  it returns, \<open>id\<close> is the pool id, the fields \<open>baseMint\<close>, \<open>quoteMint\<close>, \<open>lpMint\<close>,
  \<open>openOrders\<close>, \<open>targetOrders\<close>, \<open>baseVault\<close>, \<open>quoteVault\<close>, \<open>marketProgramId\<close>,
  \<open>marketId\<close>, \<open>withdrawQueue\<close> and \<open>lpVault\<close> are those of the pool state, and
  \<open>lpDecimals\<close> is 5, \<open>version\<close> 4, \<open>marketVersion\<close> 3 and \<open>programId\<close> the program id
  of the SDK. It returns keys whenever both decimals fit into 53 bits and the two
  authority derivations succeed.
\<close>

theorem createPoolKeys_copies_fields:
  "(createPoolKeys k pid accountData minimalMarketLayoutV3 = Inr keys \<longrightarrow>
      id_key keys = pid
    \<and> LiquidityPoolKeys.baseMint keys = LiquidityStateV4.baseMint accountData
    \<and> LiquidityPoolKeys.quoteMint keys = LiquidityStateV4.quoteMint accountData
    \<and> LiquidityPoolKeys.lpMint keys = LiquidityStateV4.lpMint accountData
    \<and> LiquidityPoolKeys.openOrders keys = LiquidityStateV4.openOrders accountData
    \<and> LiquidityPoolKeys.targetOrders keys = LiquidityStateV4.targetOrders accountData
    \<and> LiquidityPoolKeys.baseVault keys = LiquidityStateV4.baseVault accountData
    \<and> LiquidityPoolKeys.quoteVault keys = LiquidityStateV4.quoteVault accountData
    \<and> LiquidityPoolKeys.marketProgramId keys = LiquidityStateV4.marketProgramId accountData
    \<and> LiquidityPoolKeys.marketId keys = LiquidityStateV4.marketId accountData
    \<and> LiquidityPoolKeys.withdrawQueue keys = LiquidityStateV4.withdrawQueue accountData
    \<and> LiquidityPoolKeys.lpVault keys = LiquidityStateV4.lpVault accountData
    \<and> lpDecimals keys = 5 \<and> version keys = 4 \<and> marketVersion keys = 3
    \<and> LiquidityPoolKeys.programId keys = RAYDIUM_LIQUIDITY_PROGRAM_ID_V4 k)
  \<and> (\<bar>baseDecimal accountData\<bar> < 2 ^ 53 \<and> \<bar>quoteDecimal accountData\<bar> < 2 ^ 53
       \<and> Liquidity_getAssociatedAuthority k (RAYDIUM_LIQUIDITY_PROGRAM_ID_V4 k) = Inr la
       \<and> Market_getAssociatedAuthority k (LiquidityStateV4.marketProgramId accountData)
            (LiquidityStateV4.marketId accountData) = Inr ma
     \<longrightarrow> (\<exists>keys'. createPoolKeys k pid accountData minimalMarketLayoutV3 = Inr keys'))"
  by (auto simp: createPoolKeys_def andThen_Inr_iff toNumber_Inr_iff)

theorem createPoolKeys_copies_fields_witness:
  "createPoolKeys scenario_sdk (PublicKey ''pool'') scenario_state scenario_market =
     Inr scenario_keys
   \<and> id_key scenario_keys = PublicKey ''pool''
   \<and> LiquidityPoolKeys.baseMint scenario_keys = LiquidityStateV4.baseMint scenario_state
   \<and> LiquidityPoolKeys.lpVault scenario_keys = LiquidityStateV4.lpVault scenario_state
   \<and> lpDecimals scenario_keys = 5 \<and> version scenario_keys = 4 \<and> marketVersion scenario_keys = 3
   \<and> LiquidityPoolKeys.programId scenario_keys = RAYDIUM_LIQUIDITY_PROGRAM_ID_V4 scenario_sdk
   \<and> \<bar>baseDecimal scenario_state\<bar> < 2 ^ 53 \<and> \<bar>quoteDecimal scenario_state\<bar> < 2 ^ 53"
  using createPoolKeys_copies_fields [where k = scenario_sdk and pid = "PublicKey ''pool''"
      and accountData = scenario_state and ?minimalMarketLayoutV3.0 = scenario_market
      and keys = scenario_keys]
    scenario_createPoolKeys
  by (simp add: scenario_state_def)

text \<open>
  C9. In the keys that \<open>createPoolKeys\<close> returns, \<open>marketBaseVault\<close> and
  \<open>marketQuoteVault\<close> are the pool state's \<open>baseVault\<close> and \<open>quoteVault\<close>; \<open>marketBids\<close>,
  \<open>marketAsks\<close> and \<open>marketEventQueue\<close> are those of the market layout, and with another
  market layout only these three fields change.
\<close>

theorem createPoolKeys_market_fields:
  assumes "createPoolKeys k pid accountData minimalMarketLayoutV3 = Inr keys"
  shows "marketBaseVault keys = LiquidityStateV4.baseVault accountData
       \<and> marketQuoteVault keys = LiquidityStateV4.quoteVault accountData
       \<and> marketBids keys = bids minimalMarketLayoutV3
       \<and> marketAsks keys = asks minimalMarketLayoutV3
       \<and> marketEventQueue keys = eventQueue minimalMarketLayoutV3
       \<and> createPoolKeys k pid accountData otherMarketLayout =
           Inr (keys\<lparr> marketBids := bids otherMarketLayout,
                      marketAsks := asks otherMarketLayout,
                      marketEventQueue := eventQueue otherMarketLayout \<rparr>)"
  using assms by (auto simp: createPoolKeys_def andThen_Inr_iff toNumber_Inr_iff)

theorem createPoolKeys_market_fields_witness:
  "createPoolKeys scenario_sdk (PublicKey ''pool'') scenario_state scenario_market =
     Inr scenario_keys
   \<and> marketBaseVault scenario_keys = PublicKey ''base-vault''
   \<and> marketQuoteVault scenario_keys = PublicKey ''quote-vault''
   \<and> marketBids scenario_keys = PublicKey ''bids''
   \<and> createPoolKeys scenario_sdk (PublicKey ''pool'') scenario_state
        \<lparr> eventQueue = PublicKey ''q'', bids = PublicKey ''b'', asks = PublicKey ''a'' \<rparr> =
       Inr (scenario_keys\<lparr> marketBids := PublicKey ''b'', marketAsks := PublicKey ''a'',
                            marketEventQueue := PublicKey ''q'' \<rparr>)"
  using createPoolKeys_market_fields [OF scenario_createPoolKeys,
      of "\<lparr> eventQueue = PublicKey ''q'', bids = PublicKey ''b'', asks = PublicKey ''a'' \<rparr>"]
    scenario_createPoolKeys
  by (simp add: scenario_state_def scenario_market_def)

end
